theory Spec2Isabelle
  imports Main "HOL-Library.Monad_Syntax"
begin

section \<open>Strings\<close>

text \<open>
  Strings are character lists. The source's strings are JavaScript strings; the model
  keeps the 8-bit part of them (the code points up to 255). There \<open>toLowerCase\<close>
  maps \<open>A..Z\<close> to \<open>a..z\<close> and the accented capitals from code 192 to code 222,
  the multiplication sign 215 apart, to the small letters 32 places on, and leaves
  every other character alone; a case-insensitive regular expression identifies the
  same pairs of characters and no others. The white space that \<open>trim\<close> and the
  regular expression class \<open>\s\<close> remove is tab, line feed, vertical tab, form
  feed, carriage return, space and no-break space.
\<close>

definition lowerChar :: "char \<Rightarrow> char" where
  "lowerChar c =
     (let n = (of_char c :: nat) in
      if (65 \<le> n \<and> n \<le> 90) \<or> (192 \<le> n \<and> n \<le> 222 \<and> n \<noteq> 215) then char_of (n + 32)
      else c)"

definition toLowerCase :: "string \<Rightarrow> string" where
  "toLowerCase s = map lowerChar s"

definition isSpace :: "char \<Rightarrow> bool" where
  "isSpace c = (let n = (of_char c :: nat) in (9 \<le> n \<and> n \<le> 13) \<or> n = 32 \<or> n = 160)"

definition trim :: "string \<Rightarrow> string" where
  "trim s = rev (dropWhile isSpace (rev (dropWhile isSpace s)))"

definition startsWith :: "string \<Rightarrow> string \<Rightarrow> bool" where
  "startsWith s p = (take (length p) s = p)"

definition endsWith :: "string \<Rightarrow> string \<Rightarrow> bool" where
  "endsWith s t = (length t \<le> length s \<and> drop (length s - length t) s = t)"

section \<open>Trust policy: which links may be stored\<close>

text \<open>
  \<open>new URL(link)\<close> is the platform's parser, not code of the repository: it is a
  parameter \<open>URL\<close> of the model, \<open>None\<close> where the constructor throws. Of the
  parsed URL the code reads three components.
\<close>

record url =
  protocol :: string
  hostname :: string
  pathname :: string

text \<open>The blocklist, the same 52 names in \<open>ai/utils.ts\<close> and in \<open>scholarshipService.ts\<close>.\<close>

definition BLOCKED_DOMAINS :: "string list" where
  "BLOCKED_DOMAINS =
    [''scholarshiptab.com'', ''studentscholarships.org'', ''scholarshipnext.com'',
     ''scholaropportunity.com'', ''scholarships.com'', ''fastweb.com'', ''scholarshipowl.com'',
     ''scholarshipportal.com'', ''findaid.org'', ''internationalscholarships.com'',
     ''scholars4dev.com'', ''afterschool.my'', ''opportunitiesforafricans.com'', ''oyaop.com'',
     ''aseanop.com'', ''marj3.com'', ''opportunitydesk.org'', ''scholarshipsads.com'',
     ''scholarshipscorner.website'', ''grantfinder.com'', ''scholarshipslab.com'',
     ''uscholarships.us'', ''scholarshipau.com'', ''happyfacetravels.com'',
     ''worldscholarshipforum.com'', ''scholarshipscafe.com'', ''scholarsme.com'',
     ''myschoolscholarship.com'',
     ''facebook.com'', ''twitter.com'', ''x.com'', ''linkedin.com'', ''instagram.com'',
     ''youtube.com'', ''tiktok.com'', ''reddit.com'', ''quora.com'', ''pinterest.com'',
     ''medium.com'', ''wordpress.com'', ''blogspot.com'', ''tumblr.com'', ''substack.com'',
     ''wikipedia.org'', ''wikidata.org'', ''bbc.com'', ''cnn.com'', ''theguardian.com'',
     ''example.com'', ''example.org'', ''test.com'', ''localhost'']"

text \<open>\<open>host.replace(/^www\./, "")\<close>: one leading \<open>www.\<close> is removed.\<close>

definition stripWww :: "string \<Rightarrow> string" where
  "stripWww host = (if startsWith host ''www.'' then drop 4 host else host)"

text \<open>The loop over the blocklist: does some entry equal the host or end it after a dot?\<close>

definition hostBlocked :: "string \<Rightarrow> bool" where
  "hostBlocked host =
     list_ex (\<lambda>blocked. host = blocked \<or> endsWith host (''.'' @ blocked)) BLOCKED_DOMAINS"

text \<open>\<open>isOfficialDirectLink\<close> of \<open>ai/utils.ts\<close>.\<close>

definition isOfficialDirectLink :: "(string \<Rightarrow> url option) \<Rightarrow> string \<Rightarrow> bool" where
  "isOfficialDirectLink URL link =
     (if link = [] then False
      else case URL link of
        None \<Rightarrow> False
      | Some u \<Rightarrow>
          if protocol u \<noteq> ''https:'' \<and> protocol u \<noteq> ''http:'' then False
          else if hostBlocked (stripWww (toLowerCase (hostname u))) then False
          else if endsWith (toLowerCase (pathname u)) ''.pdf'' then False
          else True)"

text \<open>\<open>isValidApplicationLink\<close> of \<open>scholarshipService.ts\<close>: the PDF test comes first.\<close>

definition isValidApplicationLink :: "(string \<Rightarrow> url option) \<Rightarrow> string \<Rightarrow> bool" where
  "isValidApplicationLink URL link =
     (if link = [] \<or> trim link = [] then False
      else case URL link of
        None \<Rightarrow> False
      | Some u \<Rightarrow>
          if protocol u \<noteq> ''http:'' \<and> protocol u \<noteq> ''https:'' then False
          else if endsWith (toLowerCase (pathname u)) ''.pdf'' then False
          else if hostBlocked (stripWww (toLowerCase (hostname u))) then False
          else True)"

section \<open>Dates\<close>

text \<open>
  A \<open>Date\<close> is its time value, the milliseconds since the epoch, an \<open>int\<close>; an
  Invalid Date (time value NaN) is \<open>None\<close>. The calendar is ECMAScript's: \<open>Day\<close>,
  \<open>DayFromYear\<close>, \<open>YearFromTime\<close>, \<open>MonthFromTime\<close>, \<open>DateFromTime\<close>,
  \<open>MakeDay\<close> and \<open>MakeDate\<close> as section 21.4.1 of ECMA-262 defines them. Local time
  is UTC shifted by a fixed offset \<open>tza\<close> (no daylight saving), and time values
  stay inside the range \<open>TimeClip\<close> accepts.
\<close>

definition msPerDay :: int where
  "msPerDay = 86400000"

definition Day :: "int \<Rightarrow> int" where
  "Day t = t div msPerDay"

definition TimeWithinDay :: "int \<Rightarrow> int" where
  "TimeWithinDay t = t mod msPerDay"

definition DayFromYear :: "int \<Rightarrow> int" where
  "DayFromYear y = 365 * (y - 1970) + (y - 1969) div 4 - (y - 1901) div 100 + (y - 1601) div 400"

definition InLeapYear :: "int \<Rightarrow> bool" where
  "InLeapYear y = (y mod 4 = 0 \<and> (y mod 100 \<noteq> 0 \<or> y mod 400 = 0))"

text \<open>
  \<open>YearFromTime\<close> is the largest year whose first day is not after the day: found
  from an estimate by stepping down while the year starts too late, then up while the
  next year has already begun.
\<close>

lemma DayFromYear_pred: "DayFromYear (y - 1) + 364 \<le> DayFromYear y"
proof -
  have lin: "\<And>a1 a2 b1 b2 c1 c2 :: int. a1 \<le> a2 \<Longrightarrow> c1 \<le> c2 \<Longrightarrow> b2 \<le> b1 + 1 \<Longrightarrow>
      365 * (y - 1 - 1970) + a1 - b1 + c1 + 364 \<le> 365 * (y - 1970) + a2 - b2 + c2"
    by simp
  have a: "(y - 1 - 1969) div 4 \<le> (y - 1969) div 4" by (rule zdiv_mono1) simp_all
  have c: "(y - 1 - 1601) div 400 \<le> (y - 1601) div 400" by (rule zdiv_mono1) simp_all
  have b: "(y - 1901) div 100 \<le> (y - 1 - 1901) div 100 + 1" by linarith
  show ?thesis unfolding DayFromYear_def by (rule lin [OF a c b])
qed

lemma DayFromYear_succ: "DayFromYear y + 364 \<le> DayFromYear (y + 1)"
  using DayFromYear_pred [of "y + 1"] by simp

function yearDown :: "int \<Rightarrow> int \<Rightarrow> int" where
  "yearDown d y = (if d < DayFromYear y then yearDown d (y - 1) else y)"
  by pat_completeness auto
termination
proof (relation "measure (\<lambda>(d, y). nat (DayFromYear y - d))")
  show "wf (measure (\<lambda>(d, y). nat (DayFromYear y - d)))" by simp
next
  fix d y :: int
  assume "d < DayFromYear y"
  then show "((d, y - 1), (d, y)) \<in> measure (\<lambda>(d, y). nat (DayFromYear y - d))"
    using DayFromYear_pred [of y] by simp
qed

function yearUp :: "int \<Rightarrow> int \<Rightarrow> int" where
  "yearUp d y = (if DayFromYear (y + 1) \<le> d then yearUp d (y + 1) else y)"
  by pat_completeness auto
termination
proof (relation "measure (\<lambda>(d, y). nat (d + 1 - DayFromYear (y + 1)))")
  show "wf (measure (\<lambda>(d, y). nat (d + 1 - DayFromYear (y + 1))))" by simp
next
  fix d y :: int
  assume "DayFromYear (y + 1) \<le> d"
  moreover have "DayFromYear (y + 1) < DayFromYear (y + 1 + 1)"
    using DayFromYear_succ [of "y + 1"] by linarith
  ultimately show "((d, y + 1), (d, y)) \<in> measure (\<lambda>(d, y). nat (d + 1 - DayFromYear (y + 1)))"
    by simp
qed

declare yearDown.simps [simp del] yearUp.simps [simp del]

definition YearFromTime :: "int \<Rightarrow> int" where
  "YearFromTime t = yearUp (Day t) (yearDown (Day t) (1970 + Day t div 365))"

definition DayWithinYear :: "int \<Rightarrow> int" where
  "DayWithinYear t = Day t - DayFromYear (YearFromTime t)"

text \<open>The day of the year on which month \<open>m\<close> (0 is January) begins.\<close>

definition monthStart :: "bool \<Rightarrow> int \<Rightarrow> int" where
  "monthStart leap m =
     (if m = 0 then 0 else if m = 1 then 31
      else (if leap then 1 else 0) +
        (if m = 2 then 59 else if m = 3 then 90 else if m = 4 then 120
         else if m = 5 then 151 else if m = 6 then 181 else if m = 7 then 212
         else if m = 8 then 243 else if m = 9 then 273 else if m = 10 then 304
         else 334))"

definition MonthFromTime :: "int \<Rightarrow> int" where
  "MonthFromTime t =
     (let leap = InLeapYear (YearFromTime t); d = DayWithinYear t in
      if d < monthStart leap 1 then 0 else if d < monthStart leap 2 then 1
      else if d < monthStart leap 3 then 2 else if d < monthStart leap 4 then 3
      else if d < monthStart leap 5 then 4 else if d < monthStart leap 6 then 5
      else if d < monthStart leap 7 then 6 else if d < monthStart leap 8 then 7
      else if d < monthStart leap 9 then 8 else if d < monthStart leap 10 then 9
      else if d < monthStart leap 11 then 10 else 11)"

definition DateFromTime :: "int \<Rightarrow> int" where
  "DateFromTime t =
     DayWithinYear t - monthStart (InLeapYear (YearFromTime t)) (MonthFromTime t) + 1"

definition MakeDay :: "int \<Rightarrow> int \<Rightarrow> int \<Rightarrow> int" where
  "MakeDay year month date =
     (let ym = year + month div 12; mn = month mod 12 in
      DayFromYear ym + monthStart (InLeapYear ym) mn + date - 1)"

definition MakeDate :: "int \<Rightarrow> int \<Rightarrow> int" where
  "MakeDate day time = day * msPerDay + time"

definition LocalTime :: "int \<Rightarrow> int \<Rightarrow> int" where
  "LocalTime tza t = t + tza"

definition UTC :: "int \<Rightarrow> int \<Rightarrow> int" where
  "UTC tza t = t - tza"

definition getFullYear :: "int \<Rightarrow> int \<Rightarrow> int" where
  "getFullYear tza t = YearFromTime (LocalTime tza t)"

text \<open>\<open>date.setFullYear(year)\<close>: the same local month, day and time of day in that year.\<close>

definition setFullYear :: "int \<Rightarrow> int \<Rightarrow> int \<Rightarrow> int" where
  "setFullYear tza t year =
     (let lt = LocalTime tza t in
      UTC tza (MakeDate (MakeDay year (MonthFromTime lt) (DateFromTime lt)) (TimeWithinDay lt)))"

text \<open>\<open>new Date(year, month, date)\<close>: local midnight; a year from 0 to 99 means 1900 + year.\<close>

definition newDateYMD :: "int \<Rightarrow> int \<Rightarrow> int \<Rightarrow> int \<Rightarrow> int" where
  "newDateYMD tza year month date =
     (let yr = (if 0 \<le> year \<and> year \<le> 99 then 1900 + year else year) in
      UTC tza (MakeDate (MakeDay yr month date) 0))"

section \<open>The platform\<close>

text \<open>
  What the code calls and the repository does not define is a parameter: the URL and
  date parsers, \<open>JSON.parse\<close>, the upstream model, the OpenAI provider (imported
  by the manager, its file not part of the sources), the network and the clock. A
  call that throws, rejects or times out returns \<open>None\<close>. The clock is read once:
  every \<open>new Date()\<close> of one call sees the same instant \<open>currentTime\<close>.
\<close>

datatype json =
  JNull | JBool bool | JNum int | JStr string | JArr "json list" | JObj "(string \<times> json) list"

datatype http_method = HEAD | GET

datatype provider = OpenAIProvider string | GeminiProvider string | GrokProvider string

record ParsedScholarship =
  title :: string
  organization :: string
  country :: string
  level :: string
  field :: string
  category :: string
  deadline :: string
  description :: string
  link :: string
  amount :: string
  currency :: string

record platform =
  newURL :: "string \<Rightarrow> url option"
  newDate :: "string \<Rightarrow> int option"
  JSON_parse :: "string \<Rightarrow> json option"
  callModel :: "provider \<Rightarrow> string \<Rightarrow> string option"
  openaiSearch :: "string \<Rightarrow> ParsedScholarship list"
  openaiName :: string
  fetchStatus :: "http_method \<Rightarrow> string \<Rightarrow> nat option"
  LocalTZA :: int
  currentTime :: int

section \<open>The candidate schema\<close>

text \<open>
  \<open>ParsedScholarshipSchema.safeParse\<close>: the item must be an object; nine keys must
  hold strings that meet their checks, \<open>amount\<close> and \<open>currency\<close> fall back to a
  default when the key is absent. An object is its list of members, read with
  \<open>map_of\<close>.
\<close>

definition LEVELS :: "string list" where
  "LEVELS = [''Bachelor'', ''Master'', ''PhD'', ''Postdoctoral'', ''Any'']"

definition CATEGORIES :: "string list" where
  "CATEGORIES = [''Merit-Based'', ''Need-Based'', ''Research'', ''Sports'', ''Women in STEM'',
     ''International'', ''Government'', ''Private'']"

definition CURRENCIES :: "string list" where
  "CURRENCIES = [''USD'', ''EUR'', ''GBP'', ''AUD'', ''CAD'', ''JPY'', ''CNY'', ''KRW'', ''TRY'',
     ''SEK'', ''NOK'', ''DKK'', ''CHF'', ''NZD'', ''SGD'', ''HKD'', ''INR'', ''Other'']"

definition zString :: "json option \<Rightarrow> string option" where
  "zString v = (case v of Some (JStr s) \<Rightarrow> Some s | _ \<Rightarrow> None)"

definition zStringMin :: "nat \<Rightarrow> json option \<Rightarrow> string option" where
  "zStringMin n v =
     (case zString v of None \<Rightarrow> None | Some s \<Rightarrow> if n \<le> length s then Some s else None)"

definition zEnum :: "string list \<Rightarrow> json option \<Rightarrow> string option" where
  "zEnum values v = (case v of Some (JStr s) \<Rightarrow> if List.member values s then Some s else None
                     | _ \<Rightarrow> None)"

definition zDefault :: "string \<Rightarrow> (json option \<Rightarrow> string option) \<Rightarrow> json option \<Rightarrow> string option" where
  "zDefault d inner v = (case v of None \<Rightarrow> Some d | Some x \<Rightarrow> inner v)"

definition isDigit :: "char \<Rightarrow> bool" where
  "isDigit c = (let n = (of_char c :: nat) in 48 \<le> n \<and> n \<le> 57)"

text \<open>The deadline's pattern, four digits, two digits and two digits with dashes between.\<close>

definition isoDateFormat :: "string \<Rightarrow> bool" where
  "isoDateFormat s =
     (case s of
        [y1, y2, y3, y4, d1, m1, m2, d2, t1, t2] \<Rightarrow>
          isDigit y1 \<and> isDigit y2 \<and> isDigit y3 \<and> isDigit y4 \<and> d1 = CHR ''-'' \<and>
          isDigit m1 \<and> isDigit m2 \<and> d2 = CHR ''-'' \<and> isDigit t1 \<and> isDigit t2
      | _ \<Rightarrow> False)"

definition zDeadline :: "json option \<Rightarrow> string option" where
  "zDeadline v =
     (case zString v of None \<Rightarrow> None | Some s \<Rightarrow> if isoDateFormat s then Some s else None)"

definition zLink :: "(string \<Rightarrow> url option) \<Rightarrow> json option \<Rightarrow> string option" where
  "zLink URL v =
     (case zString v of
        None \<Rightarrow> None
      | Some s \<Rightarrow>
          if URL s = None then None
          else if startsWith s ''http://'' \<or> startsWith s ''https://'' then Some s
          else None)"

definition safeParse :: "(string \<Rightarrow> url option) \<Rightarrow> json \<Rightarrow> ParsedScholarship option" where
  "safeParse URL item =
     (case item of
        JObj members \<Rightarrow>
          do {
            t \<leftarrow> zStringMin 10 (map_of members ''title'');
            org \<leftarrow> zStringMin 3 (map_of members ''organization'');
            ctry \<leftarrow> zStringMin 2 (map_of members ''country'');
            lvl \<leftarrow> zEnum LEVELS (map_of members ''level'');
            fld \<leftarrow> zStringMin 2 (map_of members ''field'');
            cat \<leftarrow> zEnum CATEGORIES (map_of members ''category'');
            dl \<leftarrow> zDeadline (map_of members ''deadline'');
            descr \<leftarrow> zStringMin 50 (map_of members ''description'');
            lnk \<leftarrow> zLink URL (map_of members ''link'');
            amt \<leftarrow> zDefault ''Varies'' (zStringMin 1) (map_of members ''amount'');
            cur \<leftarrow> zDefault ''USD'' (zEnum CURRENCIES) (map_of members ''currency'');
            Some \<lparr>title = t, organization = org, country = ctry, level = lvl, field = fld,
              category = cat, deadline = dl, description = descr, link = lnk, amount = amt,
              currency = cur\<rparr>
          }
      | _ \<Rightarrow> None)"

section \<open>Extraction: \<open>searchScholarships\<close> of the Gemini and Grok providers\<close>

text \<open>
  The body of the validation loop, the same text in both providers: schema, official
  link, deadline not invalid and not past, deadline not after the clock's date three
  calendar years on. \<open>Some s\<close> is \<open>valid.push(s)\<close>, \<open>None\<close> is \<open>continue\<close>.
\<close>

definition validateEntry :: "platform \<Rightarrow> json \<Rightarrow> ParsedScholarship option" where
  "validateEntry w item =
     (case safeParse (newURL w) item of
        None \<Rightarrow> None
      | Some s \<Rightarrow>
          if \<not> isOfficialDirectLink (newURL w) (link s) then None
          else case newDate w (deadline s) of
            None \<Rightarrow> None
          | Some dl \<Rightarrow>
              if dl < currentTime w then None
              else
                let maxDate = setFullYear (LocalTZA w) (currentTime w)
                                (getFullYear (LocalTZA w) (currentTime w) + 3)
                in if dl > maxDate then None else Some s)"

fun validateEntries :: "platform \<Rightarrow> json list \<Rightarrow> ParsedScholarship list \<Rightarrow> ParsedScholarship list" where
  "validateEntries w [] valid = valid"
| "validateEntries w (item # parsed) valid =
     (case validateEntry w item of
        None \<Rightarrow> validateEntries w parsed valid
      | Some s \<Rightarrow> validateEntries w parsed (valid @ [s]))"

text \<open>
  \<open>rawText.match(/```(?:json)?\s*([\s\S]*?)```/)\<close>: the text between the first fence
  (with an optional \<open>json\<close> tag and white space after it) and the next fence.
\<close>

fun splitFence :: "string \<Rightarrow> (string \<times> string) option" where
  "splitFence [] = None"
| "splitFence (c # cs) =
     (if startsWith (c # cs) ''```'' then Some ([], drop 3 (c # cs))
      else map_option (\<lambda>(before, after). (c # before, after)) (splitFence cs))"

definition fencedBlock :: "string \<Rightarrow> string option" where
  "fencedBlock rawText =
     (case splitFence rawText of
        None \<Rightarrow> None
      | Some (before, r1) \<Rightarrow>
          let r2 = (if startsWith r1 ''json'' then drop 4 r1 else r1);
              r3 = dropWhile isSpace r2
          in map_option fst (splitFence r3))"

definition searchScholarships :: "platform \<Rightarrow> provider \<Rightarrow> string \<Rightarrow> ParsedScholarship list" where
  "searchScholarships w p query =
     (case p of
        OpenAIProvider key \<Rightarrow> openaiSearch w query
      | _ \<Rightarrow>
         (case callModel w p query of
            None \<Rightarrow> []
          | Some rawText \<Rightarrow>
              if rawText = [] then []
              else
                let jsonStr = (case fencedBlock rawText of Some g \<Rightarrow> trim g | None \<Rightarrow> rawText)
                in case JSON_parse w jsonStr of
                     None \<Rightarrow> []
                   | Some data \<Rightarrow>
                       validateEntries w (case data of JArr items \<Rightarrow> items | _ \<Rightarrow> [data]) []))"

section \<open>Link verification and the batch runner\<close>

definition ok :: "nat \<Rightarrow> bool" where
  "ok status = (200 \<le> status \<and> status \<le> 299)"

definition verifyLinkReachable :: "platform \<Rightarrow> string \<Rightarrow> bool" where
  "verifyLinkReachable w lnk =
     (case fetchStatus w HEAD lnk of
        None \<Rightarrow> False
      | Some status \<Rightarrow>
          if ok status \<or> (300 \<le> status \<and> status < 400) then True
          else if status = 403 \<or> status = 405 then
            (case fetchStatus w GET lnk of None \<Rightarrow> False | Some status2 \<Rightarrow> ok status2)
          else False)"

fun collectResults ::
  "(string \<Rightarrow> ParsedScholarship list) \<Rightarrow> string list \<Rightarrow> ParsedScholarship list \<Rightarrow> ParsedScholarship list" where
  "collectResults searchFunction [] allResults = allResults"
| "collectResults searchFunction (query # queries) allResults =
     collectResults searchFunction queries (allResults @ searchFunction query)"

definition batchSize :: nat where
  "batchSize = 5"

function verifyBatches ::
  "platform \<Rightarrow> ParsedScholarship list \<Rightarrow> nat \<Rightarrow> ParsedScholarship list \<Rightarrow> ParsedScholarship list" where
  "verifyBatches w allResults i verified =
     (if i < length allResults then
        verifyBatches w allResults (i + batchSize)
          (verified @ filter (\<lambda>s. verifyLinkReachable w (link s)) (take batchSize (drop i allResults)))
      else verified)"
  by pat_completeness auto
termination
  by (relation "measure (\<lambda>(w, allResults, i, verified). length allResults - i)")
     (auto simp: batchSize_def)

declare verifyBatches.simps [simp del]

definition runSearchBatch ::
  "platform \<Rightarrow> string list \<Rightarrow> (string \<Rightarrow> ParsedScholarship list) \<Rightarrow> ParsedScholarship list" where
  "runSearchBatch w queries searchFunction =
     verifyBatches w (collectResults searchFunction queries []) 0 []"

section \<open>The corpus and the merge: \<open>storeScholarships\<close>\<close>

text \<open>
  A document of the \<open>Scholarship\<close> collection, with the fields of its schema and the
  two timestamps that the schema option \<open>timestamps\<close> adds. The collection is the
  list of its documents in insertion order; a document's \<open>_id\<close> is its position
  (the pipeline never deletes).
\<close>

record scholarship_doc =
  doc_title :: string
  doc_organization :: string
  doc_country :: string
  doc_level :: string
  doc_field :: string
  doc_category :: string
  doc_deadline :: int
  doc_description :: string
  doc_link :: string
  doc_amount :: "string option"
  doc_currency :: "string option"
  is_verified :: bool
  verification_notes :: "string option"
  source :: "string option"
  created_at :: int
  updated_at :: int
  createdAt :: int
  updatedAt :: int

datatype db_error = ValidationError | DuplicateKey

text \<open>Comparisons of a \<open>Date\<close> that may be invalid: with NaN both are false.\<close>

definition dateBefore :: "int option \<Rightarrow> int \<Rightarrow> bool" where
  "dateBefore a b = (case a of None \<Rightarrow> False | Some x \<Rightarrow> x < b)"

definition dateAfter :: "int option \<Rightarrow> int \<Rightarrow> bool" where
  "dateAfter a b = (case a of None \<Rightarrow> False | Some x \<Rightarrow> x > b)"

text \<open>\<open>validateScholarshipData\<close>: \<open>None\<close> is \<open>{ valid: true }\<close>, \<open>Some reason\<close> a rejection.\<close>

definition validateScholarshipData :: "platform \<Rightarrow> ParsedScholarship \<Rightarrow> string option" where
  "validateScholarshipData w s =
     (if title s = [] \<or> length (title s) < 10 then Some ''Title too short or missing''
      else if organization s = [] \<or> length (organization s) < 3 then
        Some ''Organization too short or missing''
      else if description s = [] \<or> length (description s) < 50 then
        Some ''Description too short or missing eligibility criteria''
      else if \<not> isValidApplicationLink (newURL w) (link s) then
        Some ''Invalid or non-direct application link''
      else
        let deadlineDate = newDate w (deadline s); now = currentTime w in
        if dateBefore deadlineDate now then Some ''Deadline is in the past''
        else
          let maxDate = newDateYMD (LocalTZA w) (getFullYear (LocalTZA w) now + 3) 11 31 in
          if dateAfter deadlineDate maxDate then Some ''Deadline too far in future''
          else None)"

text \<open>
  The duplicate check: the stored title and organization match the anchored, escaped,
  case-insensitive patterns built from the trimmed incoming ones, which is equality
  up to letter case, of plain and of accented letters. \<open>findOne\<close> yields the
  first match.
\<close>

definition equalsIgnoreCase :: "string \<Rightarrow> string \<Rightarrow> bool" where
  "equalsIgnoreCase a b = (toLowerCase a = toLowerCase b)"

definition sameIdentity :: "ParsedScholarship \<Rightarrow> scholarship_doc \<Rightarrow> bool" where
  "sameIdentity s d =
     (equalsIgnoreCase (doc_title d) (trim (title s)) \<and>
      equalsIgnoreCase (doc_organization d) (trim (organization s)))"

fun findIndex :: "('a \<Rightarrow> bool) \<Rightarrow> 'a list \<Rightarrow> nat option" where
  "findIndex P [] = None"
| "findIndex P (x # xs) = (if P x then Some 0 else map_option Suc (findIndex P xs))"

text \<open>
  \<open>Scholarship.create\<close>: the schema's required strings must not be empty, and the
  unique index on title, organization and deadline must not be violated (error code
  11000).
\<close>

definition Scholarship_create :: "scholarship_doc \<Rightarrow> scholarship_doc list \<Rightarrow> db_error + scholarship_doc list" where
  "Scholarship_create doc docs =
     (if doc_title doc = [] \<or> doc_organization doc = [] \<or> doc_country doc = [] \<or>
         doc_level doc = [] \<or> doc_field doc = [] \<or> doc_category doc = [] \<or>
         doc_description doc = [] \<or> doc_link doc = [] then Inl ValidationError
      else if list_ex (\<lambda>d. doc_title d = doc_title doc \<and>
                           doc_organization d = doc_organization doc \<and>
                           doc_deadline d = doc_deadline doc) docs then Inl DuplicateKey
      else Inr (docs @ [doc]))"

text \<open>The condition of the update and the fields that \<open>$set\<close> writes.\<close>

definition shouldUpdate :: "platform \<Rightarrow> ParsedScholarship \<Rightarrow> scholarship_doc \<Rightarrow> bool" where
  "shouldUpdate w s exists =
     (dateAfter (newDate w (deadline s)) (doc_deadline exists) \<or>
      length (trim (description s)) > length (doc_description exists))"

definition mergeExisting :: "platform \<Rightarrow> ParsedScholarship \<Rightarrow> scholarship_doc \<Rightarrow> scholarship_doc" where
  "mergeExisting w s exists =
     exists\<lparr>
       doc_deadline :=
         (case newDate w (deadline s) of
            None \<Rightarrow> doc_deadline exists
          | Some newDeadline \<Rightarrow>
              if newDeadline > doc_deadline exists then newDeadline else doc_deadline exists),
       doc_description :=
         (if length (trim (description s)) > length (doc_description exists)
          then trim (description s) else doc_description exists),
       doc_link :=
         (if isValidApplicationLink (newURL w) (link s) then trim (link s) else doc_link exists),
       doc_amount :=
         (if trim (amount s) \<noteq> [] then Some (trim (amount s)) else doc_amount exists),
       updated_at := currentTime w,
       updatedAt := currentTime w\<rparr>"

definition newDocument :: "platform \<Rightarrow> string \<Rightarrow> ParsedScholarship \<Rightarrow> int \<Rightarrow> scholarship_doc" where
  "newDocument w src s dl =
     \<lparr>doc_title = trim (title s), doc_organization = trim (organization s),
      doc_country = trim (country s), doc_level = level s, doc_field = trim (field s),
      doc_category = category s, doc_deadline = dl, doc_description = trim (description s),
      doc_link = trim (link s),
      doc_amount = Some (if trim (amount s) \<noteq> [] then trim (amount s) else ''Varies''),
      doc_currency = Some (if currency s \<noteq> [] then currency s else ''USD''),
      is_verified = False, verification_notes = None, source = Some src,
      created_at = currentTime w, updated_at = currentTime w,
      createdAt = currentTime w, updatedAt = currentTime w\<rparr>"

text \<open>
  The counters of the loop and the collection. The source returns \<open>added\<close> and logs
  the other two counters.
\<close>

record store_state =
  added :: nat
  rejected :: nat
  duped :: nat
  docs :: "scholarship_doc list"

text \<open>
  One turn of the loop. An invalid deadline makes \<open>create\<close> throw a validation
  error, which the \<open>catch\<close> logs without counting, as it does every error but 11000.
\<close>

definition storeOne :: "platform \<Rightarrow> string \<Rightarrow> ParsedScholarship \<Rightarrow> store_state \<Rightarrow> store_state" where
  "storeOne w src s st =
     (if validateScholarshipData w s \<noteq> None then st\<lparr>rejected := rejected st + 1\<rparr>
      else case findIndex (sameIdentity s) (docs st) of
        Some i \<Rightarrow>
          (let exists = docs st ! i in
           (if shouldUpdate w s exists
            then st\<lparr>docs := (docs st)[i := mergeExisting w s exists]\<rparr>
            else st)\<lparr>duped := duped st + 1\<rparr>)
      | None \<Rightarrow>
          (case newDate w (deadline s) of
             None \<Rightarrow> st
           | Some dl \<Rightarrow>
               (case Scholarship_create (newDocument w src s dl) (docs st) of
                  Inr docs' \<Rightarrow> st\<lparr>docs := docs', added := added st + 1\<rparr>
                | Inl DuplicateKey \<Rightarrow> st\<lparr>duped := duped st + 1\<rparr>
                | Inl ValidationError \<Rightarrow> st)))"

fun storeLoop :: "platform \<Rightarrow> string \<Rightarrow> ParsedScholarship list \<Rightarrow> store_state \<Rightarrow> store_state" where
  "storeLoop w src [] st = st"
| "storeLoop w src (s # scholarships) st = storeLoop w src scholarships (storeOne w src s st)"

definition storeScholarships ::
  "platform \<Rightarrow> ParsedScholarship list \<Rightarrow> string \<Rightarrow> scholarship_doc list \<Rightarrow> store_state" where
  "storeScholarships w scholarships src collection =
     storeLoop w src scholarships \<lparr>added = 0, rejected = 0, duped = 0, docs = collection\<rparr>"


datatype add_error = Invalid string | Database db_error


section \<open>The provider manager\<close>

text \<open>
  The environment variables that the manager's constructor reads. A variable that is
  unset is \<open>None\<close>; an empty string counts as unset wherever the code tests it for
  truth.
\<close>

record process_env =
  AI_PROVIDER :: "string option"
  OPENAI_API_KEY :: "string option"
  GROK_API_KEY :: "string option"
  GEMINI_API_KEY :: "string option"

record AIServiceConfig =
  provider :: string
  openaiApiKey :: "string option"
  grokApiKey :: "string option"
  geminiApiKey :: "string option"

record AIServiceManager =
  currentProvider :: "provider option"
  config :: AIServiceConfig

definition truthy :: "string option \<Rightarrow> bool" where
  "truthy v = (case v of None \<Rightarrow> False | Some s \<Rightarrow> s \<noteq> [])"

definition loadConfig :: "process_env \<Rightarrow> AIServiceConfig" where
  "loadConfig env =
     \<lparr>provider = (case AI_PROVIDER env of None \<Rightarrow> ''grok''
                  | Some name \<Rightarrow> if name \<noteq> [] then name else ''grok''),
      openaiApiKey = OPENAI_API_KEY env,
      grokApiKey = GROK_API_KEY env,
      geminiApiKey = GEMINI_API_KEY env\<rparr>"

fun joinWith :: "string \<Rightarrow> string list \<Rightarrow> string" where
  "joinWith sep [] = []"
| "joinWith sep [x] = x"
| "joinWith sep (x # y # ys) = x @ sep @ joinWith sep (y # ys)"

text \<open>The \<open>switch\<close> of \<open>initializeProvider\<close>: the provider it sets, if any.\<close>

definition withKey :: "string option \<Rightarrow> (string \<Rightarrow> provider) \<Rightarrow> provider option" where
  "withKey apiKey construct =
     (case apiKey of None \<Rightarrow> None | Some k \<Rightarrow> if k \<noteq> [] then Some (construct k) else None)"

definition selectProvider :: "AIServiceConfig \<Rightarrow> provider option" where
  "selectProvider cfg =
     (if provider cfg = ''openai'' then withKey (openaiApiKey cfg) OpenAIProvider
      else if provider cfg = ''gemini'' then withKey (geminiApiKey cfg) GeminiProvider
      else if provider cfg = ''grok'' then withKey (grokApiKey cfg) GrokProvider
      else None)"

definition initError :: "AIServiceConfig \<Rightarrow> string" where
  "initError cfg =
     (let availableKeys =
            (if truthy (openaiApiKey cfg) then [''openai''] else []) @
            (if truthy (geminiApiKey cfg) then [''gemini''] else []) @
            (if truthy (grokApiKey cfg) then [''grok''] else [])
      in ''[AI Service] Failed to initialize provider: '' @ provider cfg @ ''. '' @
         (if availableKeys \<noteq> [] then
            ''Available providers: '' @ joinWith '', '' availableKeys @
            ''. Consider switching to one of them in your .env file.''
          else ''No API keys found. Please add an API key to your .env file.''))"

text \<open>
  \<open>initializeProvider\<close>, called with no provider set: it sets one or throws
  (\<open>Inl\<close> the message of the \<open>Error\<close>).
\<close>

definition initializeProvider :: "AIServiceConfig \<Rightarrow> string + provider" where
  "initializeProvider cfg =
     (case selectProvider cfg of None \<Rightarrow> Inl (initError cfg) | Some p \<Rightarrow> Inr p)"

text \<open>The constructor: it loads the configuration and initializes the provider.\<close>

definition newAIServiceManager :: "process_env \<Rightarrow> string + AIServiceManager" where
  "newAIServiceManager env =
     (case initializeProvider (loadConfig env) of
        Inl err \<Rightarrow> Inl err
      | Inr p \<Rightarrow> Inr \<lparr>currentProvider = Some p, config = loadConfig env\<rparr>)"

text \<open>
  The provider's own name. Of the OpenAI provider the repository holds only the import:
  its search function and its name are parameters of the platform.
\<close>

definition providerName :: "platform \<Rightarrow> provider \<Rightarrow> string" where
  "providerName w p =
     (case p of OpenAIProvider k \<Rightarrow> openaiName w | GeminiProvider k \<Rightarrow> ''Gemini''
      | GrokProvider k \<Rightarrow> ''Grok'')"

definition getProviderName :: "platform \<Rightarrow> AIServiceManager \<Rightarrow> string" where
  "getProviderName w m =
     (case currentProvider m of
        None \<Rightarrow> ''None''
      | Some p \<Rightarrow> if providerName w p \<noteq> [] then providerName w p else ''None'')"

text \<open>The manager's \<open>runSearchBatch\<close>: it throws when no provider is set.\<close>

definition managerRunSearchBatch ::
  "platform \<Rightarrow> AIServiceManager \<Rightarrow> string list \<Rightarrow> string + ParsedScholarship list" where
  "managerRunSearchBatch w m queries =
     (case currentProvider m of
        None \<Rightarrow> Inl ''[AI Service] No provider initialized''
      | Some p \<Rightarrow> Inr (runSearchBatch w queries (searchScholarships w p)))"

section \<open>The fetch cycle\<close>

definition SEARCH_QUERY_SETS :: "string list list" where
  "SEARCH_QUERY_SETS =
    [[''site:.edu OR site:.ac.uk scholarships international students 2026 apply now'',
      ''site:.gov.au OR site:.gc.ca scholarships 2026 international students'',
      ''official university scholarships USA 2026 application open international students'',
      ''UK Russell Group university scholarships 2026 international apply''],
     [''site:daad.de scholarships 2026 international students'',
      ''Netherlands universities scholarships 2026 non-EU students official'',
      ''Sweden SI scholarships 2026 official application'',
      ''France Campus France Eiffel Excellence scholarship 2026''],
     [''site:jasso.go.jp OR MEXT scholarship 2026 official application'',
      ''site:.ac.kr KGSP GKS scholarship 2026 application'',
      ''CSC scholarship China 2026 official application international'',
      ''Turkiye Burslari scholarship 2026 official apply''],
     [''STEM scholarships women 2026 official university apply'',
      ''fully funded PhD scholarships 2026 official university application'',
      ''need-based scholarships developing countries 2026 official'',
      ''athletic scholarships NCAA universities 2026 official''],
     [''Fulbright scholarship 2026 official application site:fulbrightonline.org OR site:cies.org'',
      ''Chevening scholarship 2026 official site:chevening.org'',
      ''Erasmus Mundus Joint Master 2026 official site:ec.europa.eu OR site:eacea.ec.europa.eu'',
      ''Commonwealth scholarship 2026 official site:cscuk.fcdo.gov.uk'']]"

definition getSearchQueries :: "nat \<Rightarrow> string list" where
  "getSearchQueries idx = SEARCH_QUERY_SETS ! (idx mod length SEARCH_QUERY_SETS)"

datatype run_status = running | completed | failed

record FetchLog =
  search_queries :: "string list"
  status :: run_status
  scholarships_found :: nat
  scholarships_added :: nat
  error :: "string option"
  started_at :: int
  completed_at :: "int option"

text \<open>
  The run log is the list of its records, a record's id its position.
  \<open>createFetchLog\<close> returns the new id; the two updates change the record of that
  id and nothing when there is none.
\<close>

definition createFetchLog :: "platform \<Rightarrow> string list \<Rightarrow> FetchLog list \<Rightarrow> nat \<times> FetchLog list" where
  "createFetchLog w queries logs =
     (length logs,
      logs @ [\<lparr>search_queries = queries, status = running, scholarships_found = 0,
               scholarships_added = 0, error = None, started_at = currentTime w,
               completed_at = None\<rparr>])"

definition completeFetchLog :: "platform \<Rightarrow> nat \<Rightarrow> nat \<Rightarrow> nat \<Rightarrow> FetchLog list \<Rightarrow> FetchLog list" where
  "completeFetchLog w logId found n logs =
     (if logId < length logs then
        logs[logId := (logs ! logId)\<lparr>completed_at := Some (currentTime w), status := completed,
                        scholarships_found := found, scholarships_added := n\<rparr>]
      else logs)"

definition failFetchLog :: "platform \<Rightarrow> nat \<Rightarrow> string \<Rightarrow> FetchLog list \<Rightarrow> FetchLog list" where
  "failFetchLog w logId err logs =
     (if logId < length logs then
        logs[logId := (logs ! logId)\<lparr>completed_at := Some (currentTime w), status := failed,
                        error := Some err\<rparr>]
      else logs)"

text \<open>
  The state that a cycle reads and writes: the lazily built singleton manager, the run
  counter, the run log and the corpus.
\<close>

record app_state =
  aiServiceInstance :: "AIServiceManager option"
  runIndex :: nat
  fetchLogs :: "FetchLog list"
  scholarships :: "scholarship_doc list"

text \<open>\<open>getAIService\<close>: the singleton, built on first use; the constructor may throw.\<close>

definition getAIService :: "process_env \<Rightarrow> app_state \<Rightarrow> string + (AIServiceManager \<times> app_state)" where
  "getAIService env st =
     (case aiServiceInstance st of
        Some m \<Rightarrow> Inr (m, st)
      | None \<Rightarrow>
          (case newAIServiceManager env of
             Inl err \<Rightarrow> Inl err
           | Inr m \<Rightarrow> Inr (m, st\<lparr>aiServiceInstance := Some m\<rparr>)))"

definition batchLabel :: "nat \<Rightarrow> string" where
  "batchLabel idx = [char_of (48 + (idx mod 5 + 1))]"

text \<open>
  \<open>runFetchCycle\<close>. The result is the error that escapes to the caller, if any, and
  the state left behind. The search queries are chosen and the run record is created
  first; \<open>getProviderName()\<close> is called before the \<open>try\<close>, so what the manager's
  constructor throws there is not caught; the batch and the store run inside the
  \<open>try\<close>, whose \<open>catch\<close> marks the run failed. The counter advances after the
  \<open>try\<close> statement.
\<close>

definition runFetchCycle :: "platform \<Rightarrow> process_env \<Rightarrow> app_state \<Rightarrow> string option \<times> app_state" where
  "runFetchCycle w env st =
     (let queries = getSearchQueries (runIndex st);
          (logId, logs1) = createFetchLog w queries (fetchLogs st);
          st1 = st\<lparr>fetchLogs := logs1\<rparr>
      in case getAIService env st1 of
           Inl err \<Rightarrow> (Some err, st1)
         | Inr (m, st2) \<Rightarrow>
             (case managerRunSearchBatch w m queries of
                Inl err \<Rightarrow>
                  (None, st2\<lparr>fetchLogs := failFetchLog w logId err (fetchLogs st2),
                             runIndex := runIndex st2 + 1\<rparr>)
              | Inr found \<Rightarrow>
                  let r = storeScholarships w found
                            (toLowerCase (getProviderName w m) @ ''-web-search-batch-'' @
                             batchLabel (runIndex st2))
                            (scholarships st2)
                  in (None, st2\<lparr>scholarships := docs r,
                                fetchLogs := completeFetchLog w logId (length found) (added r)
                                               (fetchLogs st2),
                                runIndex := runIndex st2 + 1\<rparr>)))"

section \<open>What the claims say, in the model's terms\<close>

text \<open>
  A parsed URL that the trust policy is said to reject: its scheme is neither http nor
  https, or its host (in lower case, one leading \<open>www.\<close> removed) is a blocklisted
  domain or a subdomain of one, or its path ends in \<open>.pdf\<close> whatever the letter case.
\<close>

definition untrusted :: "url \<Rightarrow> bool" where
  "untrusted u =
     ((protocol u \<noteq> ''http:'' \<and> protocol u \<noteq> ''https:'')
      \<or> (\<exists>blocked \<in> set BLOCKED_DOMAINS. \<exists>sub.
            stripWww (toLowerCase (hostname u)) = blocked
          \<or> stripWww (toLowerCase (hostname u)) = sub @ ''.'' @ blocked)
      \<or> (\<exists>p. toLowerCase (pathname u) = p @ ''.pdf''))"

text \<open>
  A parsed item that misses a required field of the candidate schema, or holds under
  an enumerated key a value that is not one of the key's strings.
\<close>

definition jsonMember :: "json \<Rightarrow> string \<Rightarrow> json option" where
  "jsonMember item k = (case item of JObj members \<Rightarrow> map_of members k | _ \<Rightarrow> None)"

definition REQUIRED_KEYS :: "string list" where
  "REQUIRED_KEYS = [''title'', ''organization'', ''country'', ''level'', ''field'', ''category'',
     ''deadline'', ''description'', ''link'']"

definition missingRequiredField :: "json \<Rightarrow> bool" where
  "missingRequiredField item = list_ex (\<lambda>k. jsonMember item k = None) REQUIRED_KEYS"

definition outsideEnum :: "string list \<Rightarrow> json option \<Rightarrow> bool" where
  "outsideEnum values v =
     (case v of None \<Rightarrow> False | Some (JStr s) \<Rightarrow> \<not> List.member values s | Some other \<Rightarrow> True)"

definition violatesEnum :: "json \<Rightarrow> bool" where
  "violatesEnum item =
     (outsideEnum LEVELS (jsonMember item ''level'') \<or>
      outsideEnum CATEGORIES (jsonMember item ''category'') \<or>
      outsideEnum CURRENCIES (jsonMember item ''currency''))"

text \<open>
  The identity key of a stored record, the lower-cased trimmed title and organization,
  and the two properties of a corpus: keys are pairwise different, and titles and
  organizations are stored trimmed (every writer of the repository trims them).
\<close>

definition identityKey :: "scholarship_doc \<Rightarrow> string \<times> string" where
  "identityKey d = (toLowerCase (trim (doc_title d)), toLowerCase (trim (doc_organization d)))"

definition candidateKey :: "ParsedScholarship \<Rightarrow> string \<times> string" where
  "candidateKey s = (toLowerCase (trim (title s)), toLowerCase (trim (organization s)))"

text \<open>
  The fields that the storage schema requires are present in what the store would
  write for the candidate: none is empty once trimmed as the insert trims it.
\<close>

definition requiredFieldsPresent :: "ParsedScholarship \<Rightarrow> bool" where
  "requiredFieldsPresent s =
     (trim (title s) \<noteq> [] \<and> trim (organization s) \<noteq> [] \<and> trim (country s) \<noteq> [] \<and>
      level s \<noteq> [] \<and> trim (field s) \<noteq> [] \<and> category s \<noteq> [] \<and>
      trim (description s) \<noteq> [])"


definition storedTrimmed :: "scholarship_doc list \<Rightarrow> bool" where
  "storedTrimmed collection =
     list_all (\<lambda>d. trim (doc_title d) = doc_title d \<and>
                    trim (doc_organization d) = doc_organization d) collection"

section \<open>Example data\<close>

text \<open>
  A platform for the concrete instances: the URL and date parsers on the strings that
  occur, with the values the real parsers give; an upstream model that answers the
  first query of the first batch with a reply holding three candidates and every other
  query with an empty array; a network on which the MIT page answers HEAD with 200 and
  nothing else answers; UTC as the local time zone; the clock at noon of 2 November
  2026.
\<close>

definition exampleURL :: "string \<Rightarrow> url option" where
  "exampleURL l =
     (if l = ''https://mit.edu/apply'' then
        Some \<lparr>protocol = ''https:'', hostname = ''mit.edu'', pathname = ''/apply''\<rparr>
      else if l = ''https://scholarships.com/x'' then
        Some \<lparr>protocol = ''https:'', hostname = ''scholarships.com'', pathname = ''/x''\<rparr>
      else None)"

definition exampleDate :: "string \<Rightarrow> int option" where
  "exampleDate d =
     (if d = ''2025-01-15'' then Some 1736899200000
      else if d = ''2026-02-01'' then Some 1769904000000
      else if d = ''2027-06-30'' then Some 1814313600000
      else if d = ''2029-12-01'' then Some 1890777600000
      else None)"

definition goodCandidate :: ParsedScholarship where
  "goodCandidate =
     \<lparr>title = ''MIT Presidential Fellowship'',
      organization = ''Massachusetts Institute of Technology'',
      country = ''United States'', level = ''PhD'', field = ''Any'',
      category = ''Merit-Based'', deadline = ''2027-06-30'',
      description =
        ''Full tuition and a monthly stipend for doctoral students admitted to any department.'',
      link = ''https://mit.edu/apply'', amount = ''Full tuition'', currency = ''USD''\<rparr>"

definition pastCandidate :: ParsedScholarship where
  "pastCandidate =
     goodCandidate\<lparr>title := ''MIT Winter Travel Grant'', deadline := ''2025-01-15''\<rparr>"

definition blockedCandidate :: ParsedScholarship where
  "blockedCandidate =
     goodCandidate\<lparr>title := ''Global Future Leaders Award'',
                   link := ''https://scholarships.com/x''\<rparr>"

definition toJson :: "ParsedScholarship \<Rightarrow> json" where
  "toJson s =
     JObj [(''title'', JStr (title s)), (''organization'', JStr (organization s)),
           (''country'', JStr (country s)), (''level'', JStr (level s)),
           (''field'', JStr (field s)), (''category'', JStr (category s)),
           (''deadline'', JStr (deadline s)), (''description'', JStr (description s)),
           (''link'', JStr (link s)), (''amount'', JStr (amount s)),
           (''currency'', JStr (currency s))]"

definition exampleReply :: string where
  "exampleReply = ''```json [past, blocked, good] ```''"

definition examplePlatform :: platform where
  "examplePlatform =
     \<lparr>newURL = exampleURL,
      newDate = exampleDate,
      JSON_parse = (\<lambda>t. if t = ''[past, blocked, good]''
                          then Some (JArr [toJson pastCandidate, toJson blockedCandidate,
                                           toJson goodCandidate])
                          else if t = ''[]'' then Some (JArr []) else None),
      callModel = (\<lambda>p q. if q = hd (getSearchQueries 0) then Some exampleReply else Some ''[]''),
      openaiSearch = (\<lambda>q. []),
      openaiName = ''OpenAI'',
      fetchStatus = (\<lambda>m l. if m = HEAD \<and> l = ''https://mit.edu/apply'' then Some 200 else None),
      LocalTZA = 0,
      currentTime = 1793620800000\<rparr>"

text \<open>
  A stored record of the good candidate's scholarship with the deadline 1 January 2026
  and a description of 60 characters, two incoming versions of the candidate with the
  deadline 1 February 2026 and descriptions of 40 and of 54 characters, and the
  platform with its clock at 1 December 2025.
\<close>

definition storedExample :: scholarship_doc where
  "storedExample =
     \<lparr>doc_title = ''MIT Presidential Fellowship'',
      doc_organization = ''Massachusetts Institute of Technology'',
      doc_country = ''United States'', doc_level = ''PhD'', doc_field = ''Any'',
      doc_category = ''Merit-Based'', doc_deadline = 1767225600000,
      doc_description = ''Full tuition for doctoral students admitted to a department.'',
      doc_link = ''https://mit.edu/apply'', doc_amount = Some ''Full tuition'',
      doc_currency = Some ''USD'', is_verified = False, verification_notes = None,
      source = Some ''grok-web-search-batch-1'',
      created_at = 1750000000000, updated_at = 1750000000000,
      createdAt = 1750000000000, updatedAt = 1750000000000\<rparr>"

definition shortCandidate :: ParsedScholarship where
  "shortCandidate =
     goodCandidate\<lparr>deadline := ''2026-02-01'',
                   description := ''Tuition for newly admitted PhD students.''\<rparr>"

definition mediumCandidate :: ParsedScholarship where
  "mediumCandidate =
     goodCandidate\<lparr>deadline := ''2026-02-01'',
                   description := ''Tuition and some fees for newly admitted PhD students.''\<rparr>"

definition earlyPlatform :: platform where
  "earlyPlatform = examplePlatform\<lparr>currentTime := 1764547200000\<rparr>"


text \<open>
  A verified candidate whose country is two spaces, an administrative entry that
  differs from the good candidate's scholarship in the letter case of its title only,
  and a candidate and a stored record whose titles differ in the case of an accented
  first letter (codes 233 and 201).
\<close>

definition blankCountryCandidate :: ParsedScholarship where
  "blankCountryCandidate = goodCandidate\<lparr>country := ''  ''\<rparr>"


definition accentedCandidate :: ParsedScholarship where
  "accentedCandidate = goodCandidate\<lparr>title := char_of (233::nat) # ''cole Polytechnique Grant''\<rparr>"

definition accentedStored :: scholarship_doc where
  "accentedStored = storedExample\<lparr>doc_title := char_of (201::nat) # ''cole Polytechnique Grant''\<rparr>"


definition emptyEnv :: process_env where
  "emptyEnv =
     \<lparr>AI_PROVIDER = None, OPENAI_API_KEY = None, GROK_API_KEY = None, GEMINI_API_KEY = None\<rparr>"

definition initialState :: app_state where
  "initialState = \<lparr>aiServiceInstance = None, runIndex = 0, fetchLogs = [], scholarships = []\<rparr>"


text \<open>
  A version of the good candidate with the deadline 1 December 2029, three years and a
  month after the example clock, and the platform with its clock at midnight of
  29 June 2027, one day before the good candidate's deadline.
\<close>

definition farCandidate :: ParsedScholarship where
  "farCandidate = goodCandidate\<lparr>deadline := ''2029-12-01''\<rparr>"

definition eveOfDeadlinePlatform :: platform where
  "eveOfDeadlinePlatform = examplePlatform\<lparr>currentTime := 1814227200000\<rparr>"

section \<open>Trust policy\<close>

lemma endsWith_iff: "endsWith s t \<longleftrightarrow> (\<exists>p. s = p @ t)"
proof
  assume "endsWith s t"
  then have "s = take (length s - length t) s @ t"
    unfolding endsWith_def by (metis append_take_drop_id)
  then show "\<exists>p. s = p @ t" ..
next
  assume "\<exists>p. s = p @ t"
  then show "endsWith s t" unfolding endsWith_def by auto
qed

lemma hostBlocked_iff:
  "hostBlocked h \<longleftrightarrow>
     (\<exists>blocked \<in> set BLOCKED_DOMAINS. \<exists>sub. h = blocked \<or> h = sub @ ''.'' @ blocked)"
  unfolding hostBlocked_def list_ex_iff endsWith_iff by blast

lemma mit_not_blocked: "\<not> hostBlocked ''mit.edu''"
  unfolding hostBlocked_def BLOCKED_DOMAINS_def by (simp add: endsWith_def)

lemma lower_mit: "toLowerCase ''mit.edu'' = ''mit.edu''" "toLowerCase ''/apply'' = ''/apply''"
  by (simp_all add: toLowerCase_def lowerChar_def)

lemma untrusted_rejected:
  assumes "\<forall>u. URL lnk = Some u \<longrightarrow> untrusted u"
  shows "\<not> isOfficialDirectLink URL lnk" and "\<not> isValidApplicationLink URL lnk"
proof -
  show "\<not> isOfficialDirectLink URL lnk"
    using assms unfolding isOfficialDirectLink_def untrusted_def hostBlocked_iff endsWith_iff
    by (auto split: option.splits)
  show "\<not> isValidApplicationLink URL lnk"
    using assms unfolding isValidApplicationLink_def untrusted_def hostBlocked_iff endsWith_iff
    by (auto split: option.splits)
qed

lemma mit_accepted:
  assumes "URL ''https://mit.edu/apply'' =
             Some \<lparr>protocol = ''https:'', hostname = ''mit.edu'', pathname = ''/apply''\<rparr>"
  shows "isOfficialDirectLink URL ''https://mit.edu/apply''"
    and "isValidApplicationLink URL ''https://mit.edu/apply''"
proof -
  show "isOfficialDirectLink URL ''https://mit.edu/apply''"
    unfolding isOfficialDirectLink_def using assms mit_not_blocked
    by (simp add: lower_mit stripWww_def startsWith_def endsWith_def)
  show "isValidApplicationLink URL ''https://mit.edu/apply''"
    unfolding isValidApplicationLink_def using assms mit_not_blocked
    by (simp add: lower_mit stripWww_def startsWith_def endsWith_def trim_def isSpace_def)
qed

text \<open>
  Claim C5. Both link predicates of the trust policy, \<open>isOfficialDirectLink\<close> of the
  extraction stage and \<open>isValidApplicationLink\<close> of the store, return false for
  every link that does not parse as a URL or whose parsed URL has a scheme other than
  http and https, a host that (in lower case, without one leading \<open>www.\<close>) equals a
  blocklisted domain or is a subdomain of one, or a path that ends in \<open>.pdf\<close> in any
  letter case. For \<open>https://mit.edu/apply\<close>, parsed by the URL parser into the scheme
  \<open>https:\<close>, the host \<open>mit.edu\<close> and the path \<open>/apply\<close>, both return true.
\<close>

theorem trust_policy_link_predicate:
  "((\<forall>u. URL lnk = Some u \<longrightarrow> untrusted u) \<longrightarrow>
      \<not> isOfficialDirectLink URL lnk \<and> \<not> isValidApplicationLink URL lnk)
   \<and> (URL' ''https://mit.edu/apply'' =
         Some \<lparr>protocol = ''https:'', hostname = ''mit.edu'', pathname = ''/apply''\<rparr> \<longrightarrow>
       isOfficialDirectLink URL' ''https://mit.edu/apply''
       \<and> isValidApplicationLink URL' ''https://mit.edu/apply'')"
proof (intro conjI impI)
  assume a: "\<forall>u. URL lnk = Some u \<longrightarrow> untrusted u"
  show "\<not> isOfficialDirectLink URL lnk" using a by (rule untrusted_rejected(1) [of URL lnk])
  show "\<not> isValidApplicationLink URL lnk" using a by (rule untrusted_rejected(2) [of URL lnk])
next
  assume m: "URL' ''https://mit.edu/apply'' =
         Some \<lparr>protocol = ''https:'', hostname = ''mit.edu'', pathname = ''/apply''\<rparr>"
  show "isOfficialDirectLink URL' ''https://mit.edu/apply''" using m by (rule mit_accepted(1) [of URL'])
  show "isValidApplicationLink URL' ''https://mit.edu/apply''" using m by (rule mit_accepted(2) [of URL'])
qed

text \<open>
  An instance: a Facebook group page, with upper-case letters and \<open>www.\<close> in the host,
  is rejected by both predicates, and the MIT page is accepted by both.
\<close>

theorem trust_policy_link_predicate_witness:
  "\<not> isOfficialDirectLink
        (\<lambda>l. Some \<lparr>protocol = ''https:'', hostname = ''WWW.Facebook.com'', pathname = ''/groups/x''\<rparr>)
        ''https://WWW.Facebook.com/groups/x''
   \<and> \<not> isValidApplicationLink
        (\<lambda>l. Some \<lparr>protocol = ''https:'', hostname = ''WWW.Facebook.com'', pathname = ''/groups/x''\<rparr>)
        ''https://WWW.Facebook.com/groups/x''
   \<and> isOfficialDirectLink
        (\<lambda>l. Some \<lparr>protocol = ''https:'', hostname = ''mit.edu'', pathname = ''/apply''\<rparr>)
        ''https://mit.edu/apply''
   \<and> isValidApplicationLink
        (\<lambda>l. Some \<lparr>protocol = ''https:'', hostname = ''mit.edu'', pathname = ''/apply''\<rparr>)
        ''https://mit.edu/apply''"
proof -
  let ?fb = "\<lparr>protocol = ''https:'', hostname = ''WWW.Facebook.com'', pathname = ''/groups/x''\<rparr>"
  have low: "stripWww (toLowerCase (hostname ?fb)) = ''facebook.com''"
    by code_simp
  have "''facebook.com'' \<in> set BLOCKED_DOMAINS"
    by (simp add: BLOCKED_DOMAINS_def)
  with low have "untrusted ?fb"
    unfolding untrusted_def by (intro disjI2 disjI1 bexI [of _ "''facebook.com''"] exI [of _ "[]"]) simp_all
  then have hyp: "\<forall>u. (\<lambda>l. Some ?fb) ''https://WWW.Facebook.com/groups/x'' = Some u \<longrightarrow> untrusted u"
    by simp
  show ?thesis
    using hyp
      trust_policy_link_predicate [of "\<lambda>l. Some ?fb" "''https://WWW.Facebook.com/groups/x''"
        "\<lambda>l. Some \<lparr>protocol = ''https:'', hostname = ''mit.edu'', pathname = ''/apply''\<rparr>"]
    by simp
qed

section \<open>Link verification\<close>






section \<open>The extraction-time validator\<close>

lemma validateEntries_eq:
  "validateEntries w items valid = valid @ List.map_filter (validateEntry w) items"
  by (induction items arbitrary: valid) (simp_all add: List.map_filter_simps split: option.splits)

lemma zNone [simp]:
  "zStringMin n None = None" "zEnum vs None = None" "zDeadline None = None" "zLink URL None = None"
  by (simp_all add: zStringMin_def zString_def zEnum_def zDeadline_def zLink_def)

lemma missing_safeParse: "missingRequiredField item \<Longrightarrow> safeParse URL item = None"
  unfolding missingRequiredField_def REQUIRED_KEYS_def jsonMember_def safeParse_def
  by (cases item) (auto simp: Option.bind_eq_None_conv)

lemma outsideEnum_zEnum: "outsideEnum vs v \<Longrightarrow> zEnum vs v = None"
  unfolding outsideEnum_def zEnum_def by (auto split: option.splits json.splits)

lemma outsideEnum_zDefault: "outsideEnum vs v \<Longrightarrow> zDefault d (zEnum vs) v = None"
  unfolding zDefault_def using outsideEnum_zEnum [of vs v]
  by (auto simp: outsideEnum_def split: option.splits)

lemma enum_safeParse: "violatesEnum item \<Longrightarrow> safeParse URL item = None"
proof (cases item)
  case (JObj members)
  assume v: "violatesEnum item"
  from v JObj consider
      "zEnum LEVELS (map_of members ''level'') = None"
    | "zEnum CATEGORIES (map_of members ''category'') = None"
    | "zDefault ''USD'' (zEnum CURRENCIES) (map_of members ''currency'') = None"
    unfolding violatesEnum_def jsonMember_def
    using outsideEnum_zEnum outsideEnum_zDefault by fastforce
  then show ?thesis
    unfolding safeParse_def JObj by cases (auto simp: Option.bind_eq_None_conv)
qed (simp_all add: safeParse_def)

lemma violation_excluded:
  "missingRequiredField item \<or> violatesEnum item \<Longrightarrow> validateEntry w item = None"
  unfolding validateEntry_def using missing_safeParse enum_safeParse by fastforce

text \<open>
  Claim C8. The validation loop of the providers returns, in order, the parsed data of
  exactly those items of the batch that pass the validation of a single item. An item
  that misses a required field of the schema or violates one of its enumerations fails
  that validation, and leaving it out of the batch, wherever it stands, does not change
  the output: that item is excluded and no other.
\<close>

theorem validator_excludes_elementwise:
  "validateEntries w batch [] = List.map_filter (validateEntry w) batch
   \<and> (missingRequiredField bad \<or> violatesEnum bad \<longrightarrow>
        validateEntry w bad = None
        \<and> validateEntries w (before @ bad # after) [] = validateEntries w (before @ after) [])"
proof (intro conjI impI)
  show "validateEntries w batch [] = List.map_filter (validateEntry w) batch"
    by (simp add: validateEntries_eq)
next
  assume v: "missingRequiredField bad \<or> violatesEnum bad"
  then show none: "validateEntry w bad = None" by (rule violation_excluded)
  show "validateEntries w (before @ bad # after) [] = validateEntries w (before @ after) []"
    by (simp add: validateEntries_eq List.map_filter_def none)
qed

lemma good_entry: "validateEntry examplePlatform (toJson goodCandidate) = Some goodCandidate"
  by code_simp

text \<open>
  An instance: between two copies of the good candidate, an item whose level is not
  one of the five levels is dropped, and the two copies come out.
\<close>

theorem validator_excludes_elementwise_witness:
  "validateEntry examplePlatform (toJson (goodCandidate\<lparr>level := ''Diploma''\<rparr>)) = None
   \<and> validateEntries examplePlatform
        [toJson goodCandidate, toJson (goodCandidate\<lparr>level := ''Diploma''\<rparr>), toJson goodCandidate] []
     = [goodCandidate, goodCandidate]"
proof -
  have v: "violatesEnum (toJson (goodCandidate\<lparr>level := ''Diploma''\<rparr>))"
    by code_simp
  have two: "validateEntries examplePlatform [toJson goodCandidate, toJson goodCandidate] []
               = [goodCandidate, goodCandidate]"
    by (simp add: good_entry)
  show ?thesis
    using v two
      validator_excludes_elementwise [of examplePlatform "[]"
        "toJson (goodCandidate\<lparr>level := ''Diploma''\<rparr>)" "[toJson goodCandidate]" "[toJson goodCandidate]"]
    by simp
qed

section \<open>The merge\<close>

lemma findIndex_Some:
  "findIndex P xs = Some i \<Longrightarrow> i < length xs \<and> P (xs ! i)"
proof (induction xs arbitrary: i)
  case Nil
  then show ?case by simp
next
  case (Cons x xs)
  then show ?case by (cases "P x") auto
qed

lemma findIndex_None: "findIndex P xs = None \<longleftrightarrow> (\<forall>x \<in> set xs. \<not> P x)"
  by (induction xs) auto

lemma findIndex_snoc:
  "findIndex P xs = None \<Longrightarrow> P x \<Longrightarrow> findIndex P (xs @ [x]) = Some (length xs)"
  by (induction xs) auto

lemma storeOne_matched:
  assumes "validateScholarshipData w s = None"
    and "findIndex (sameIdentity s) (docs st) = Some i"
  shows "storeOne w src s st =
           (if shouldUpdate w s (docs st ! i)
            then st\<lparr>docs := (docs st)[i := mergeExisting w s (docs st ! i)], duped := duped st + 1\<rparr>
            else st\<lparr>duped := duped st + 1\<rparr>)"
  using assms by (simp add: storeOne_def Let_def)

lemma valid_link:
  "validateScholarshipData w s = None \<Longrightarrow> isValidApplicationLink (newURL w) (link s)"
  unfolding validateScholarshipData_def by (auto simp: Let_def split: if_splits)

lemma mergeExisting_deadline:
  "doc_deadline (mergeExisting w s d) =
     (case newDate w (deadline s) of None \<Rightarrow> doc_deadline d | Some n \<Rightarrow> max (doc_deadline d) n)"
  unfolding mergeExisting_def by (auto split: option.splits)

lemma mergeExisting_deadline_mono: "doc_deadline d \<le> doc_deadline (mergeExisting w s d)"
  unfolding mergeExisting_deadline by (auto split: option.splits)

lemma storeOne_docs_cases:
  "docs (storeOne w src s st) = docs st
   \<or> (\<exists>i. i < length (docs st) \<and>
           docs (storeOne w src s st) = (docs st)[i := mergeExisting w s (docs st ! i)])
   \<or> (\<exists>d. docs (storeOne w src s st) = docs st @ [d])"
proof (cases "validateScholarshipData w s = None")
  case False
  then show ?thesis by (simp add: storeOne_def)
next
  case valid: True
  show ?thesis
  proof (cases "findIndex (sameIdentity s) (docs st)")
    case (Some i)
    then have "i < length (docs st)" using findIndex_Some by fastforce
    then show ?thesis
      using storeOne_matched [OF valid Some, of src] by (cases "shouldUpdate w s (docs st ! i)") auto
  next
    case None
    then show ?thesis
      using valid
      by (auto simp: storeOne_def Scholarship_create_def
               split: option.splits sum.splits db_error.splits if_splits)
  qed
qed

lemma storeOne_deadline_mono:
  assumes "j < length (docs st)"
  shows "j < length (docs (storeOne w src s st)) \<and>
         doc_deadline (docs st ! j) \<le> doc_deadline (docs (storeOne w src s st) ! j)"
proof -
  consider "docs (storeOne w src s st) = docs st"
    | i where "i < length (docs st)"
        "docs (storeOne w src s st) = (docs st)[i := mergeExisting w s (docs st ! i)]"
    | d where "docs (storeOne w src s st) = docs st @ [d]"
    using storeOne_docs_cases [of w src s st] by blast
  then show ?thesis
  proof cases
    case 1
    then show ?thesis using assms by simp
  next
    case 2
    then show ?thesis
      using assms mergeExisting_deadline_mono [of "docs st ! i" w s]
      by (cases "j = i") simp_all
  next
    case 3
    then show ?thesis using assms by (simp add: nth_append)
  qed
qed

lemma storeLoop_deadline_mono:
  "j < length (docs st) \<Longrightarrow>
     j < length (docs (storeLoop w src incoming st)) \<and>
     doc_deadline (docs st ! j) \<le> doc_deadline (docs (storeLoop w src incoming st) ! j)"
proof (induction incoming arbitrary: st)
  case Nil
  then show ?case by simp
next
  case (Cons s incoming)
  from storeOne_deadline_mono [OF Cons.prems, of w src s]
  have a: "j < length (docs (storeOne w src s st))"
    and b: "doc_deadline (docs st ! j) \<le> doc_deadline (docs (storeOne w src s st) ! j)"
    by simp_all
  from Cons.IH [OF a] b show ?case by simp
qed

text \<open>
  Claim C10. When an incoming candidate that passes the store's validation matches a
  stored record, the record's deadline after the merge step is the later of the stored
  deadline and the incoming one, also when only a longer description made the update
  fire, and it is the stored deadline when no update fires. Through a whole run of
  \<open>storeScholarships\<close> no stored record's deadline moves to an earlier date.
\<close>

theorem stored_deadline_never_moves_back:
  "(validateScholarshipData w s = None \<longrightarrow>
    findIndex (sameIdentity s) (docs st) = Some i \<longrightarrow>
    newDate w (deadline s) = Some n \<longrightarrow>
      doc_deadline (docs (storeOne w src s st) ! i) = max (doc_deadline (docs st ! i)) n
      \<and> (\<not> shouldUpdate w s (docs st ! i) \<longrightarrow>
           doc_deadline (docs (storeOne w src s st) ! i) = doc_deadline (docs st ! i)))
   \<and> (j < length collection \<longrightarrow>
        j < length (docs (storeScholarships w incoming src collection))
        \<and> doc_deadline (collection ! j)
            \<le> doc_deadline (docs (storeScholarships w incoming src collection) ! j))"
proof (intro conjI impI)
  assume valid: "validateScholarshipData w s = None"
    and match: "findIndex (sameIdentity s) (docs st) = Some i"
    and parse: "newDate w (deadline s) = Some n"
  have i: "i < length (docs st)" using findIndex_Some [OF match] by simp
  show "doc_deadline (docs (storeOne w src s st) ! i) = max (doc_deadline (docs st ! i)) n"
  proof (cases "shouldUpdate w s (docs st ! i)")
    case True
    then show ?thesis
      using storeOne_matched [OF valid match, of src] i parse
      by (simp add: mergeExisting_deadline)
  next
    case False
    then have "\<not> n > doc_deadline (docs st ! i)"
      using parse by (simp add: shouldUpdate_def dateAfter_def)
    then show ?thesis
      using storeOne_matched [OF valid match, of src] False by simp
  qed
  assume "\<not> shouldUpdate w s (docs st ! i)"
  then show "doc_deadline (docs (storeOne w src s st) ! i) = doc_deadline (docs st ! i)"
    using storeOne_matched [OF valid match, of src] by simp
next
  assume j: "j < length collection"
  then have "j < length (docs \<lparr>added = 0, rejected = 0, duped = 0, docs = collection\<rparr>)"
    by simp
  from storeLoop_deadline_mono [OF this, of w src incoming]
  show "j < length (docs (storeScholarships w incoming src collection))"
    and "doc_deadline (collection ! j)
            \<le> doc_deadline (docs (storeScholarships w incoming src collection) ! j)"
    by (simp_all add: storeScholarships_def)
qed


text \<open>
  Two instances. The stored record has a later deadline (1 July 2027) and a shorter
  description than the incoming good candidate: the update fires for the description
  alone, and the stored deadline stays. The stored record's title differs from the
  incoming one in the case of an accented letter: the candidate is merged into it, and
  the stored deadline moves from 1 January 2026 to the incoming 30 June 2027.
\<close>

theorem stored_deadline_never_moves_back_witness:
  "shouldUpdate examplePlatform goodCandidate (storedExample\<lparr>doc_deadline := 1814400000000\<rparr>)
   \<and> doc_deadline
        (docs (storeOne examplePlatform ''grok-web-search-batch-1'' goodCandidate
                 \<lparr>added = 0, rejected = 0, duped = 0,
                  docs = [storedExample\<lparr>doc_deadline := 1814400000000\<rparr>]\<rparr>) ! 0)
       = 1814400000000
   \<and> doc_deadline storedExample
        \<le> doc_deadline
             (docs (storeScholarships examplePlatform [goodCandidate] ''grok-web-search-batch-1''
                      [storedExample]) ! 0)
   \<and> doc_deadline
        (docs (storeOne examplePlatform ''grok-web-search-batch-1'' accentedCandidate
                 \<lparr>added = 0, rejected = 0, duped = 0, docs = [accentedStored]\<rparr>) ! 0)
       = 1814313600000"
proof -
  let ?d = "storedExample\<lparr>doc_deadline := 1814400000000\<rparr>"
  let ?st = "\<lparr>added = 0, rejected = 0, duped = 0, docs = [?d]\<rparr>"
  let ?sta = "\<lparr>added = 0, rejected = 0, duped = 0, docs = [accentedStored]\<rparr>"
  have valid: "validateScholarshipData examplePlatform goodCandidate = None"
    by code_simp
  have match: "findIndex (sameIdentity goodCandidate) (docs ?st) = Some 0"
    by code_simp
  have parse: "newDate examplePlatform (deadline goodCandidate) = Some 1814313600000"
    by code_simp
  have upd: "shouldUpdate examplePlatform goodCandidate ?d"
    by code_simp
  have len: "(0::nat) < length [storedExample]" by simp
  have valid_a: "validateScholarshipData examplePlatform accentedCandidate = None"
    by code_simp
  have match_a: "findIndex (sameIdentity accentedCandidate) (docs ?sta) = Some 0"
    by code_simp
  have parse_a: "newDate examplePlatform (deadline accentedCandidate) = Some 1814313600000"
    by code_simp
  have old_a: "doc_deadline (docs ?sta ! 0) = 1767225600000" by code_simp
  have first: "shouldUpdate examplePlatform goodCandidate ?d
   \<and> doc_deadline
        (docs (storeOne examplePlatform ''grok-web-search-batch-1'' goodCandidate ?st) ! 0)
       = 1814400000000
   \<and> doc_deadline storedExample
        \<le> doc_deadline
             (docs (storeScholarships examplePlatform [goodCandidate] ''grok-web-search-batch-1''
                      [storedExample]) ! 0)"
    using valid match parse upd len
      stored_deadline_never_moves_back
        [where w = examplePlatform and s = goodCandidate and st = ?st and i = 0
           and n = 1814313600000 and src = "''grok-web-search-batch-1''" and j = 0
           and collection = "[storedExample]" and incoming = "[goodCandidate]"]
    by simp
  have second: "doc_deadline
        (docs (storeOne examplePlatform ''grok-web-search-batch-1'' accentedCandidate ?sta) ! 0)
       = 1814313600000"
    using valid_a match_a parse_a
      stored_deadline_never_moves_back
        [where w = examplePlatform and s = accentedCandidate and st = ?sta and i = 0
           and n = 1814313600000 and src = "''grok-web-search-batch-1''"]
    unfolding old_a by simp
  from first second show ?thesis by simp
qed

lemma short_description_invalid:
  "length (description s) < 50 \<Longrightarrow> validateScholarshipData w s \<noteq> None"
  unfolding validateScholarshipData_def by (simp add: Let_def)

lemma storeOne_rejected:
  "validateScholarshipData w s \<noteq> None \<Longrightarrow> storeOne w src s st = st\<lparr>rejected := rejected st + 1\<rparr>"
  by (simp add: storeOne_def)

lemma accented_titles_match: "sameIdentity accentedCandidate accentedStored"
  by code_simp

lemma storeOne_on_match:
  "validateScholarshipData w s = None \<Longrightarrow>
   findIndex (sameIdentity s) (docs st) = Some i \<Longrightarrow>
   (let old = docs st ! i;
        later = (\<exists>n. newDate w (deadline s) = Some n \<and> doc_deadline old < n);
        longer = (length (doc_description old) < length (trim (description s)));
        st' = storeOne w src s st
    in docs st' =
         (if later \<or> longer then
            (docs st)[i := old\<lparr>
               doc_deadline :=
                 (case newDate w (deadline s) of
                    None \<Rightarrow> doc_deadline old | Some n \<Rightarrow> max (doc_deadline old) n),
               doc_description :=
                 (if longer then trim (description s) else doc_description old),
               doc_link := trim (link s),
               doc_amount :=
                 (if trim (amount s) \<noteq> [] then Some (trim (amount s)) else doc_amount old),
               updated_at := currentTime w,
               updatedAt := currentTime w\<rparr>]
          else docs st)
       \<and> duped st' = duped st + 1 \<and> added st' = added st \<and> rejected st' = rejected st)"
proof -
  assume valid: "validateScholarshipData w s = None"
    and match: "findIndex (sameIdentity s) (docs st) = Some i"
  have upd: "shouldUpdate w s (docs st ! i) \<longleftrightarrow>
               (\<exists>n. newDate w (deadline s) = Some n \<and> doc_deadline (docs st ! i) < n)
               \<or> length (doc_description (docs st ! i)) < length (trim (description s))"
    unfolding shouldUpdate_def dateAfter_def by (auto split: option.splits)
  have merged: "mergeExisting w s (docs st ! i) =
      (docs st ! i)\<lparr>
         doc_deadline :=
           (case newDate w (deadline s) of
              None \<Rightarrow> doc_deadline (docs st ! i)
            | Some n \<Rightarrow> max (doc_deadline (docs st ! i)) n),
         doc_description :=
           (if length (doc_description (docs st ! i)) < length (trim (description s))
            then trim (description s) else doc_description (docs st ! i)),
         doc_link := trim (link s),
         doc_amount :=
           (if trim (amount s) \<noteq> [] then Some (trim (amount s)) else doc_amount (docs st ! i)),
         updated_at := currentTime w,
         updatedAt := currentTime w\<rparr>"
    unfolding mergeExisting_def using valid_link [OF valid]
    by (auto split: option.splits simp: max_def)
  show ?thesis
    unfolding Let_def storeOne_matched [OF valid match] upd [symmetric] merged [symmetric]
    by simp
qed


text \<open>
  Claim C4, as the code has it. An incoming candidate is first validated by the store:
  one that fails, as every candidate with a description shorter than 50 characters
  does, is counted as rejected and changes nothing. For a validated candidate that
  matches a stored record, the record is updated exactly when the incoming deadline is
  strictly later than the stored one or the trimmed incoming description is strictly
  longer than the stored one. The update sets the deadline to the later of the two,
  the description to the trimmed incoming one if that is longer, the link to the
  trimmed incoming link (which the validation has just found trusted), the amount to
  the trimmed incoming amount if that is not empty, and the two update timestamps to
  the current time; every other field and every other record stays as it was. With or
  without update the candidate is counted as a duplicate, and without update the
  collection is unchanged.
\<close>

theorem merge_policy_on_match:
  "(validateScholarshipData w s \<noteq> None \<longrightarrow>
      storeOne w src s st = st\<lparr>rejected := rejected st + 1\<rparr>)
   \<and> (length (description s) < 50 \<longrightarrow> validateScholarshipData w s \<noteq> None)
   \<and> (validateScholarshipData w s = None \<longrightarrow>
      findIndex (sameIdentity s) (docs st) = Some i \<longrightarrow>
      (let old = docs st ! i;
           later = (\<exists>n. newDate w (deadline s) = Some n \<and> doc_deadline old < n);
           longer = (length (doc_description old) < length (trim (description s)));
           st' = storeOne w src s st
       in docs st' =
            (if later \<or> longer then
               (docs st)[i := old\<lparr>
                  doc_deadline :=
                    (case newDate w (deadline s) of
                       None \<Rightarrow> doc_deadline old | Some n \<Rightarrow> max (doc_deadline old) n),
                  doc_description :=
                    (if longer then trim (description s) else doc_description old),
                  doc_link := trim (link s),
                  doc_amount :=
                    (if trim (amount s) \<noteq> [] then Some (trim (amount s)) else doc_amount old),
                  updated_at := currentTime w,
                  updatedAt := currentTime w\<rparr>]
             else docs st)
          \<and> duped st' = duped st + 1 \<and> added st' = added st \<and> rejected st' = rejected st))"
proof (intro conjI impI)
  assume "validateScholarshipData w s \<noteq> None"
  then show "storeOne w src s st = st\<lparr>rejected := rejected st + 1\<rparr>"
    by (rule storeOne_rejected)
next
  assume "length (description s) < 50"
  then show "validateScholarshipData w s \<noteq> None" by (rule short_description_invalid)
next
  assume valid: "validateScholarshipData w s = None"
    and match: "findIndex (sameIdentity s) (docs st) = Some i"
  show "let old = docs st ! i;
           later = (\<exists>n. newDate w (deadline s) = Some n \<and> doc_deadline old < n);
           longer = (length (doc_description old) < length (trim (description s)));
           st' = storeOne w src s st
       in docs st' =
            (if later \<or> longer then
               (docs st)[i := old\<lparr>
                  doc_deadline :=
                    (case newDate w (deadline s) of
                       None \<Rightarrow> doc_deadline old | Some n \<Rightarrow> max (doc_deadline old) n),
                  doc_description :=
                    (if longer then trim (description s) else doc_description old),
                  doc_link := trim (link s),
                  doc_amount :=
                    (if trim (amount s) \<noteq> [] then Some (trim (amount s)) else doc_amount old),
                  updated_at := currentTime w,
                  updatedAt := currentTime w\<rparr>]
             else docs st)
          \<and> duped st' = duped st + 1 \<and> added st' = added st \<and> rejected st' = rejected st"
    by (rule storeOne_on_match [OF valid match])
qed

text \<open>
  An instance, at 1 December 2025: the stored record has the deadline 1 January 2026
  and a description of 60 characters; the incoming candidate has the deadline
  1 February 2026 and a description of 54 characters. The deadline and the update
  timestamps are written, the description and every other field stay. The same
  candidate with a description of 40 characters is rejected. A candidate whose title
  differs from the stored one in the case of an accented letter is merged into the
  stored record and counted as a duplicate.
\<close>

theorem merge_policy_on_match_witness:
  "length (doc_description storedExample) = 60
   \<and> length (description mediumCandidate) = 54
   \<and> storeOne earlyPlatform ''grok-web-search-batch-1'' mediumCandidate
        \<lparr>added = 0, rejected = 0, duped = 0, docs = [storedExample]\<rparr>
      = \<lparr>added = 0, rejected = 0, duped = 1,
         docs = [storedExample\<lparr>doc_deadline := 1769904000000,
                               updated_at := 1764547200000,
                               updatedAt := 1764547200000\<rparr>]\<rparr>
   \<and> storeOne earlyPlatform ''grok-web-search-batch-1'' shortCandidate
        \<lparr>added = 0, rejected = 0, duped = 0, docs = [storedExample]\<rparr>
      = \<lparr>added = 0, rejected = 1, duped = 0, docs = [storedExample]\<rparr>
   \<and> duped (storeOne examplePlatform ''grok-web-search-batch-1'' accentedCandidate
               \<lparr>added = 0, rejected = 0, duped = 0, docs = [accentedStored]\<rparr>) = 1
   \<and> added (storeOne examplePlatform ''grok-web-search-batch-1'' accentedCandidate
               \<lparr>added = 0, rejected = 0, duped = 0, docs = [accentedStored]\<rparr>) = 0"
proof -
  let ?st = "\<lparr>added = 0, rejected = 0, duped = 0, docs = [storedExample]\<rparr>"
  let ?st' = "storeOne earlyPlatform ''grok-web-search-batch-1'' mediumCandidate ?st"
  let ?sta = "\<lparr>added = 0, rejected = 0, duped = 0, docs = [accentedStored]\<rparr>"
  have valid: "validateScholarshipData earlyPlatform mediumCandidate = None"
    by code_simp
  have match: "findIndex (sameIdentity mediumCandidate) (docs ?st) = Some 0"
    by code_simp
  have parse: "newDate earlyPlatform (deadline mediumCandidate) = Some 1769904000000"
    by code_simp
  have l60: "length (doc_description storedExample) = 60" by code_simp
  have l54: "length (trim (description mediumCandidate)) = 54" by code_simp
  have l54': "length (description mediumCandidate) = 54" by code_simp
  have lnk: "trim (link mediumCandidate) = doc_link storedExample" by code_simp
  have amt: "trim (amount mediumCandidate) = ''Full tuition''" by code_simp
  have amt': "doc_amount storedExample = Some ''Full tuition''" by code_simp
  have dl: "doc_deadline storedExample = 1767225600000" by code_simp
  have now: "currentTime earlyPlatform = 1764547200000" by code_simp
  have "docs ?st' = [storedExample\<lparr>doc_deadline := 1769904000000,
                               updated_at := 1764547200000,
                               updatedAt := 1764547200000\<rparr>]
        \<and> duped ?st' = 1 \<and> added ?st' = 0 \<and> rejected ?st' = 0"
    using valid match
      merge_policy_on_match [of earlyPlatform mediumCandidate "''grok-web-search-batch-1''" ?st 0]
    by (simp add: Let_def parse l60 l54 lnk amt amt' dl now)
  then have first: "?st' = \<lparr>added = 0, rejected = 0, duped = 1,
         docs = [storedExample\<lparr>doc_deadline := 1769904000000,
                               updated_at := 1764547200000,
                               updatedAt := 1764547200000\<rparr>]\<rparr>"
    by (cases ?st') simp
  have l40: "length (description shortCandidate) < 50" by code_simp
  have second: "storeOne earlyPlatform ''grok-web-search-batch-1'' shortCandidate ?st
                  = \<lparr>added = 0, rejected = 1, duped = 0, docs = [storedExample]\<rparr>"
    using l40
      merge_policy_on_match [of earlyPlatform shortCandidate "''grok-web-search-batch-1''" ?st 0]
    by simp
  have valid_a: "validateScholarshipData examplePlatform accentedCandidate = None"
    by code_simp
  have match_a: "findIndex (sameIdentity accentedCandidate) (docs ?sta) = Some 0"
    using accented_titles_match by simp
  have third: "duped (storeOne examplePlatform ''grok-web-search-batch-1'' accentedCandidate ?sta) = 1
               \<and> added (storeOne examplePlatform ''grok-web-search-batch-1'' accentedCandidate ?sta) = 0"
    using valid_a match_a
      merge_policy_on_match [of examplePlatform accentedCandidate "''grok-web-search-batch-1''" ?sta 0]
    by (simp add: Let_def)
  from l60 l54' first second third show ?thesis by simp
qed

text \<open>
  The example of the claim as it is stated, at 1 December 2025: the incoming candidate
  has the deadline 1 February 2026 and a description of 40 characters, the matching
  stored record the deadline 1 January 2026 and a description of 60 characters. The
  store rejects the candidate for its short description, and the stored deadline is
  not updated.
\<close>

theorem merge_policy_example_counterexample:
  "length (doc_description storedExample) = 60
   \<and> doc_deadline storedExample = 1767225600000
   \<and> length (description shortCandidate) = 40
   \<and> newDate earlyPlatform (deadline shortCandidate) = Some 1769904000000
   \<and> sameIdentity shortCandidate storedExample
   \<and> storeScholarships earlyPlatform [shortCandidate] ''grok-web-search-batch-1'' [storedExample]
      = \<lparr>added = 0, rejected = 1, duped = 0, docs = [storedExample]\<rparr>"
  by code_simp

section \<open>Identity keys and insertion\<close>


lemma sameIdentity_newDocument: "sameIdentity s (newDocument w src s dl)"
  by (simp add: sameIdentity_def newDocument_def equalsIgnoreCase_def)

lemma fresh_no_exact_match:
  assumes "findIndex (sameIdentity s) collection = None"
  shows "\<not> list_ex (\<lambda>d. doc_title d = doc_title (newDocument w src s dl) \<and>
                         doc_organization d = doc_organization (newDocument w src s dl) \<and>
                         doc_deadline d = doc_deadline (newDocument w src s dl)) collection"
  using assms unfolding findIndex_None list_ex_iff
  by (auto simp: sameIdentity_def newDocument_def equalsIgnoreCase_def)

lemma valid_link_nonblank:
  "validateScholarshipData w s = None \<Longrightarrow> trim (link s) \<noteq> []"
  using valid_link [of w s] unfolding isValidApplicationLink_def by (auto split: if_splits)

lemma storeOne_insert:
  assumes valid: "validateScholarshipData w s = None"
    and parse: "newDate w (deadline s) = Some dl"
    and fresh: "findIndex (sameIdentity s) (docs st) = None"
    and nonblank: "trim (title s) \<noteq> []" "trim (organization s) \<noteq> []" "trim (country s) \<noteq> []"
      "level s \<noteq> []" "trim (field s) \<noteq> []" "category s \<noteq> []" "trim (description s) \<noteq> []"
  shows "storeOne w src s st =
           st\<lparr>docs := docs st @ [newDocument w src s dl], added := added st + 1\<rparr>"
proof -
  have "Scholarship_create (newDocument w src s dl) (docs st) = Inr (docs st @ [newDocument w src s dl])"
    unfolding Scholarship_create_def
    using fresh_no_exact_match [OF fresh, of w src dl] nonblank valid_link_nonblank [OF valid]
    by (simp add: newDocument_def)
  then show ?thesis
    using valid parse fresh by (simp add: storeOne_def)
qed

lemma storeOne_duplicate:
  assumes valid: "validateScholarshipData w2 s = None"
    and parse: "newDate w2 (deadline s) = Some dl"
    and fresh: "findIndex (sameIdentity s) collection = None"
    and st: "docs st = collection @ [newDocument w src s dl]"
  shows "storeOne w2 src2 s st = st\<lparr>duped := duped st + 1\<rparr>"
proof -
  have match: "findIndex (sameIdentity s) (docs st) = Some (length collection)"
    unfolding st using fresh sameIdentity_newDocument by (rule findIndex_snoc)
  have nth: "docs st ! length collection = newDocument w src s dl"
    unfolding st by simp
  have "\<not> shouldUpdate w2 s (newDocument w src s dl)"
    unfolding shouldUpdate_def dateAfter_def using parse by (simp add: newDocument_def)
  then show ?thesis
    using storeOne_matched [OF valid match, of src2] nth by simp
qed

lemma sameIdentity_key:
  assumes "trim (doc_title d) = doc_title d" and "trim (doc_organization d) = doc_organization d"
  shows "sameIdentity s d \<longleftrightarrow> identityKey d = candidateKey s"
  using assms by (auto simp: sameIdentity_def identityKey_def candidateKey_def equalsIgnoreCase_def)

lemma fresh_key_findIndex:
  assumes "storedTrimmed collection" and "candidateKey s \<notin> set (map identityKey collection)"
  shows "findIndex (sameIdentity s) collection = None"
  unfolding findIndex_None
proof
  fix d assume d: "d \<in> set collection"
  with assms(1) have "trim (doc_title d) = doc_title d" "trim (doc_organization d) = doc_organization d"
    by (auto simp: storedTrimmed_def list_all_iff)
  then have "sameIdentity s d \<longleftrightarrow> identityKey d = candidateKey s" by (rule sameIdentity_key)
  moreover have "identityKey d \<in> set (map identityKey collection)" using d by simp
  then have "identityKey d \<noteq> candidateKey s" using assms(2) by metis
  ultimately show "\<not> sameIdentity s d" by simp
qed

lemma storeOne_not_inserted:
  assumes fresh: "findIndex (sameIdentity s) (docs st) = None"
    and no: "validateScholarshipData w s \<noteq> None \<or> newDate w (deadline s) = None
             \<or> \<not> requiredFieldsPresent s"
  shows "docs (storeOne w src s st) = docs st \<and> added (storeOne w src s st) = added st"
proof (cases "validateScholarshipData w s = None")
  case False
  then show ?thesis by (simp add: storeOne_def)
next
  case valid: True
  show ?thesis
  proof (cases "newDate w (deadline s)")
    case None
    then show ?thesis using valid fresh by (simp add: storeOne_def)
  next
    case (Some dl)
    with no valid have "\<not> requiredFieldsPresent s" by simp
    then have "Scholarship_create (newDocument w src s dl) (docs st) = Inl ValidationError"
      unfolding Scholarship_create_def requiredFieldsPresent_def newDocument_def by auto
    then show ?thesis using valid fresh Some by (simp add: storeOne_def)
  qed
qed

text \<open>
  Claim C7, as the code has it. Take a collection whose titles and organizations are
  stored trimmed and a candidate whose identity key no stored record has. If the
  candidate passes the store's validation, its deadline parses and the fields that the
  storage schema requires are not blank, the first submission inserts it, one record
  more, counted as added; submitting it again against the resulting store (at the same
  or a later instant at which it still passes the validation) counts one duplicate and
  changes nothing: the record count has grown by exactly one. If the candidate fails
  the validation, or its deadline does not parse, or a required field is blank after
  trimming, the submission adds nothing and leaves the collection as it was, and so
  does every repetition.
\<close>

theorem merge_idempotent_on_insertion:
  assumes "storedTrimmed collection"
    and "candidateKey s \<notin> set (map identityKey collection)"
  shows "(validateScholarshipData w s = None \<and> newDate w (deadline s) = Some dl
            \<and> requiredFieldsPresent s \<longrightarrow>
          storeScholarships w [s] src collection =
            \<lparr>added = 1, rejected = 0, duped = 0, docs = collection @ [newDocument w src s dl]\<rparr>
          \<and> (validateScholarshipData w2 s = None \<and> newDate w2 (deadline s) = Some dl \<longrightarrow>
               storeScholarships w2 [s] src2 (docs (storeScholarships w [s] src collection)) =
                 \<lparr>added = 0, rejected = 0, duped = 1,
                  docs = collection @ [newDocument w src s dl]\<rparr>
               \<and> length (docs (storeScholarships w2 [s] src2
                            (docs (storeScholarships w [s] src collection))))
                   = length collection + 1))
         \<and> (validateScholarshipData w s \<noteq> None \<or> newDate w (deadline s) = None
               \<or> \<not> requiredFieldsPresent s \<longrightarrow>
             added (storeScholarships w [s] src collection) = 0
             \<and> docs (storeScholarships w [s] src collection) = collection
             \<and> docs (storeScholarships w [s] src2
                       (docs (storeScholarships w [s] src collection))) = collection)"
proof (intro conjI impI)
  let ?st0 = "\<lparr>added = 0, rejected = 0, duped = 0, docs = collection\<rparr>"
  have fresh0: "findIndex (sameIdentity s) collection = None"
    using assms by (rule fresh_key_findIndex)
  then have fresh: "findIndex (sameIdentity s) (docs ?st0) = None" by simp
  {
    assume h: "validateScholarshipData w s = None \<and> newDate w (deadline s) = Some dl
                 \<and> requiredFieldsPresent s"
    then have valid: "validateScholarshipData w s = None"
      and parse: "newDate w (deadline s) = Some dl" by simp_all
    from h have nb: "trim (title s) \<noteq> []" "trim (organization s) \<noteq> []" "trim (country s) \<noteq> []"
      "level s \<noteq> []" "trim (field s) \<noteq> []" "category s \<noteq> []" "trim (description s) \<noteq> []"
      by (simp_all add: requiredFieldsPresent_def)
    show first: "storeScholarships w [s] src collection =
            \<lparr>added = 1, rejected = 0, duped = 0, docs = collection @ [newDocument w src s dl]\<rparr>"
      unfolding storeScholarships_def
      using storeOne_insert [OF valid parse fresh nb, of src] by simp
    assume h2: "validateScholarshipData w2 s = None \<and> newDate w2 (deadline s) = Some dl"
    then have valid2: "validateScholarshipData w2 s = None"
      and parse2: "newDate w2 (deadline s) = Some dl" by simp_all
    let ?st1 = "\<lparr>added = 0, rejected = 0, duped = 0, docs = collection @ [newDocument w src s dl]\<rparr>"
    have "storeOne w2 src2 s ?st1 = ?st1\<lparr>duped := duped ?st1 + 1\<rparr>"
      by (rule storeOne_duplicate [OF valid2 parse2 fresh0]) simp
    then have second: "storeScholarships w2 [s] src2 (collection @ [newDocument w src s dl]) =
           \<lparr>added = 0, rejected = 0, duped = 1, docs = collection @ [newDocument w src s dl]\<rparr>"
      unfolding storeScholarships_def by simp
    show "storeScholarships w2 [s] src2 (docs (storeScholarships w [s] src collection)) =
                 \<lparr>added = 0, rejected = 0, duped = 1,
                  docs = collection @ [newDocument w src s dl]\<rparr>"
      unfolding first using second by simp
    show "length (docs (storeScholarships w2 [s] src2
                            (docs (storeScholarships w [s] src collection))))
                   = length collection + 1"
      unfolding first using second by simp
  }
  {
    assume no: "validateScholarshipData w s \<noteq> None \<or> newDate w (deadline s) = None
               \<or> \<not> requiredFieldsPresent s"
    have one: "docs (storeScholarships w [s] x collection) = collection
               \<and> added (storeScholarships w [s] x collection) = 0" for x
      unfolding storeScholarships_def
      using storeOne_not_inserted [OF fresh no, of x] by simp
    show "added (storeScholarships w [s] src collection) = 0" using one by simp
    show "docs (storeScholarships w [s] src collection) = collection" using one by simp
    show "docs (storeScholarships w [s] src2
                       (docs (storeScholarships w [s] src collection))) = collection"
      using one [of src] one [of src2] by simp
  }
qed

text \<open>
  An instance: the good candidate, submitted twice to an empty collection on the
  example platform, and the candidate whose country is two spaces, which the
  submission does not insert.
\<close>

theorem merge_idempotent_on_insertion_witness:
  "storeScholarships examplePlatform [goodCandidate] ''grok-web-search-batch-1'' []
     = \<lparr>added = 1, rejected = 0, duped = 0,
        docs = [newDocument examplePlatform ''grok-web-search-batch-1'' goodCandidate 1814313600000]\<rparr>
   \<and> storeScholarships examplePlatform [goodCandidate] ''grok-web-search-batch-1''
        (docs (storeScholarships examplePlatform [goodCandidate] ''grok-web-search-batch-1'' []))
      = \<lparr>added = 0, rejected = 0, duped = 1,
         docs = [newDocument examplePlatform ''grok-web-search-batch-1'' goodCandidate 1814313600000]\<rparr>
   \<and> docs (storeScholarships examplePlatform [blankCountryCandidate] ''grok-web-search-batch-1'' [])
      = []"
proof -
  have t: "storedTrimmed []" by (simp add: storedTrimmed_def)
  have k: "candidateKey goodCandidate \<notin> set (map identityKey [])" by simp
  have k': "candidateKey blankCountryCandidate \<notin> set (map identityKey [])" by simp
  have valid: "validateScholarshipData examplePlatform goodCandidate = None"
    by code_simp
  have parse: "newDate examplePlatform (deadline goodCandidate) = Some 1814313600000"
    by code_simp
  have present: "requiredFieldsPresent goodCandidate" by code_simp
  have blank: "\<not> requiredFieldsPresent blankCountryCandidate" by code_simp
  note good = merge_idempotent_on_insertion [OF t k, of examplePlatform 1814313600000
      "''grok-web-search-batch-1''" examplePlatform "''grok-web-search-batch-1''"]
  note bad = merge_idempotent_on_insertion [OF t k', of examplePlatform 0
      "''grok-web-search-batch-1''" examplePlatform "''grok-web-search-batch-1''"]
  have hyp: "validateScholarshipData examplePlatform goodCandidate = None
             \<and> newDate examplePlatform (deadline goodCandidate) = Some 1814313600000
             \<and> requiredFieldsPresent goodCandidate"
    using valid parse present by (intro conjI)
  have hyp2: "validateScholarshipData examplePlatform goodCandidate = None
             \<and> newDate examplePlatform (deadline goodCandidate) = Some 1814313600000"
    using valid parse by (intro conjI)
  note both = mp [OF conjunct1 [OF good] hyp]
  note first = conjunct1 [OF both]
  note second = conjunct1 [OF mp [OF conjunct2 [OF both] hyp2]]
  from bad blank have third:
    "docs (storeScholarships examplePlatform [blankCountryCandidate] ''grok-web-search-batch-1'' [])
      = []"
    by simp
  show ?thesis
    unfolding second unfolding first using third by simp
qed

text \<open>
  The claim as it is stated fails: the candidate whose country is two spaces passes
  the extraction, its link is reachable, it passes the store's validation and no
  stored record has its identity, but the storage schema refuses the empty country
  that the insert would write. The first submission adds nothing and the second
  neither: the record count grows by 0, not by 1.
\<close>

theorem idempotent_insertion_counterexample:
  "validateEntry examplePlatform (toJson blankCountryCandidate) = Some blankCountryCandidate
   \<and> verifyLinkReachable examplePlatform (link blankCountryCandidate)
   \<and> validateScholarshipData examplePlatform blankCountryCandidate = None
   \<and> storeScholarships examplePlatform [blankCountryCandidate] ''grok-web-search-batch-1'' []
      = \<lparr>added = 0, rejected = 0, duped = 0, docs = []\<rparr>
   \<and> storeScholarships examplePlatform [blankCountryCandidate] ''grok-web-search-batch-1''
        (docs (storeScholarships examplePlatform [blankCountryCandidate]
                 ''grok-web-search-batch-1'' []))
      = \<lparr>added = 0, rejected = 0, duped = 0, docs = []\<rparr>"
  by code_simp

section \<open>Uniqueness of identity keys\<close>







lemma trim_Nil [simp]: "trim [] = []"
  by (simp add: trim_def)





section \<open>The fetch cycle\<close>

text \<open>
  Claim C2, evaluated on the code. With no provider configured and no manager built
  yet, \<open>runFetchCycle\<close> creates the run record and then fails in
  \<open>getProviderName()\<close>, before its \<open>try\<close>: the constructor's error escapes to
  the caller, the run record stays \<open>running\<close> with no error message, the run
  counter does not advance and no manager is kept, so the next invocation does the
  same.
\<close>

theorem fetch_cycle_without_provider:
  assumes "selectProvider (loadConfig env) = None"
    and "aiServiceInstance st = None"
  shows "runFetchCycle w env st =
           (Some (initError (loadConfig env)),
            st\<lparr>fetchLogs := fetchLogs st @
                 [\<lparr>search_queries = getSearchQueries (runIndex st), status = running,
                   scholarships_found = 0, scholarships_added = 0, error = None,
                   started_at = currentTime w, completed_at = None\<rparr>]\<rparr>)"
  using assms
  by (simp add: runFetchCycle_def createFetchLog_def getAIService_def newAIServiceManager_def
        initializeProvider_def Let_def)

text \<open>An instance: no environment variable is set, the process has just started.\<close>

theorem fetch_cycle_without_provider_witness:
  "runFetchCycle examplePlatform emptyEnv initialState =
     (Some ''[AI Service] Failed to initialize provider: grok. No API keys found. Please add an API key to your .env file.'',
      \<lparr>aiServiceInstance = None, runIndex = 0,
       fetchLogs = [\<lparr>search_queries = getSearchQueries 0, status = running,
                     scholarships_found = 0, scholarships_added = 0, error = None,
                     started_at = 1793620800000, completed_at = None\<rparr>],
       scholarships = []\<rparr>)"
proof -
  have a: "selectProvider (loadConfig emptyEnv) = None" by code_simp
  have b: "aiServiceInstance initialState = None" by code_simp
  have c: "initError (loadConfig emptyEnv) =
    ''[AI Service] Failed to initialize provider: grok. No API keys found. Please add an API key to your .env file.''"
    by code_simp
  have d: "currentTime examplePlatform = 1793620800000" by code_simp
  show ?thesis
    unfolding fetch_cycle_without_provider [OF a b, of examplePlatform] c d
    by (simp add: initialState_def)
qed










section \<open>The calendar\<close>

lemma DayFromYear_mono_nat: "DayFromYear y \<le> DayFromYear (y + int k)"
proof (induction k)
  case 0
  then show ?case by simp
next
  case (Suc k)
  have e: "y + int (Suc k) = y + int k + 1" by simp
  have "DayFromYear (y + int k) + 364 \<le> DayFromYear (y + int k + 1)"
    by (rule DayFromYear_succ)
  with Suc show ?case unfolding e by linarith
qed

lemma DayFromYear_mono: "a \<le> b \<Longrightarrow> DayFromYear a \<le> DayFromYear b"
  using DayFromYear_mono_nat [of a "nat (b - a)"] by simp

lemma DayFromYear_plus3: "DayFromYear y + 1092 \<le> DayFromYear (y + 3)"
proof -
  have a: "DayFromYear y + 364 \<le> DayFromYear (y + 1)" by (rule DayFromYear_succ)
  have b: "DayFromYear (y + 1) + 364 \<le> DayFromYear (y + 1 + 1)" by (rule DayFromYear_succ)
  have c: "DayFromYear (y + 1 + 1) + 364 \<le> DayFromYear (y + 1 + 1 + 1)" by (rule DayFromYear_succ)
  have e: "y + 1 + 1 + 1 = y + 3" by simp
  from a b c show ?thesis unfolding e by linarith
qed

lemma yearDown_le: "DayFromYear (yearDown d y) \<le> d"
proof (induction d y rule: yearDown.induct)
  case (1 d y)
  then show ?case by (cases "d < DayFromYear y") (simp_all add: yearDown.simps [of d y])
qed

lemma yearUp_bounds:
  "DayFromYear y \<le> d \<Longrightarrow>
     DayFromYear (yearUp d y) \<le> d \<and> d < DayFromYear (yearUp d y + 1)"
proof (induction d y rule: yearUp.induct)
  case (1 d y)
  then show ?case
    by (cases "DayFromYear (y + 1) \<le> d") (simp_all add: yearUp.simps [of d y])
qed

lemma YearFromTime_bounds:
  "DayFromYear (YearFromTime t) \<le> Day t \<and> Day t < DayFromYear (YearFromTime t + 1)"
  unfolding YearFromTime_def by (rule yearUp_bounds) (rule yearDown_le)

lemma MonthFromTime_range: "0 \<le> MonthFromTime t \<and> MonthFromTime t \<le> 11"
  unfolding MonthFromTime_def Let_def by simp

lemma monthStart_leap_diff: "monthStart l m \<le> monthStart l' m + 1"
  unfolding monthStart_def by simp

lemma monthStart_december: "334 \<le> monthStart l 11"
  unfolding monthStart_def by simp

lemma time_split: "t = Day t * msPerDay + TimeWithinDay t"
  unfolding Day_def TimeWithinDay_def by simp

lemma TimeWithinDay_range: "0 \<le> TimeWithinDay t \<and> TimeWithinDay t < msPerDay"
  unfolding TimeWithinDay_def msPerDay_def by simp

lemma MakeDay_same_date:
  "MakeDay (YearFromTime t + k) (MonthFromTime t) (DateFromTime t) =
     Day t + (DayFromYear (YearFromTime t + k) - DayFromYear (YearFromTime t))
       + (monthStart (InLeapYear (YearFromTime t + k)) (MonthFromTime t)
          - monthStart (InLeapYear (YearFromTime t)) (MonthFromTime t))"
proof -
  have m: "MonthFromTime t div 12 = 0" "MonthFromTime t mod 12 = MonthFromTime t"
    using MonthFromTime_range [of t] by simp_all
  show ?thesis
    unfolding MakeDay_def Let_def m DateFromTime_def DayWithinYear_def by simp
qed

lemma setFullYear_plus3_later:
  "t + msPerDay \<le> setFullYear tza t (getFullYear tza t + 3)"
proof -
  define lt where "lt = LocalTime tza t"
  define y where "y = YearFromTime lt"
  define day' where "day' = MakeDay (y + 3) (MonthFromTime lt) (DateFromTime lt)"
  have "day' = Day lt + (DayFromYear (y + 3) - DayFromYear y)
       + (monthStart (InLeapYear (y + 3)) (MonthFromTime lt)
          - monthStart (InLeapYear y) (MonthFromTime lt))"
    unfolding day'_def y_def by (rule MakeDay_same_date)
  moreover have "DayFromYear y + 1092 \<le> DayFromYear (y + 3)" by (rule DayFromYear_plus3)
  moreover have "monthStart (InLeapYear y) (MonthFromTime lt)
                   \<le> monthStart (InLeapYear (y + 3)) (MonthFromTime lt) + 1"
    by (rule monthStart_leap_diff)
  ultimately have d: "Day lt + 1 \<le> day'" by linarith
  have "(Day lt + 1) * msPerDay \<le> day' * msPerDay"
    using d by (simp add: msPerDay_def)
  then have "Day lt * msPerDay + msPerDay \<le> day' * msPerDay"
    by (simp add: algebra_simps)
  moreover have "lt = Day lt * msPerDay + TimeWithinDay lt" by (rule time_split)
  ultimately have "lt + msPerDay \<le> day' * msPerDay + TimeWithinDay lt" by linarith
  then show ?thesis
    unfolding setFullYear_def getFullYear_def Let_def MakeDate_def UTC_def
      lt_def [symmetric] y_def [symmetric] day'_def [symmetric]
    by (simp add: lt_def LocalTime_def)
qed

lemma endOfYear3_later:
  "t + msPerDay \<le> newDateYMD tza (getFullYear tza t + 3) 11 31"
proof -
  define lt where "lt = LocalTime tza t"
  define y where "y = YearFromTime lt"
  define yr where "yr = (if 0 \<le> y + 3 \<and> y + 3 \<le> 99 then 1900 + (y + 3) else y + 3)"
  define day' where "day' = MakeDay yr 11 31"
  have "y + 1 \<le> yr" unfolding yr_def by simp
  then have "DayFromYear (y + 1) \<le> DayFromYear yr" by (rule DayFromYear_mono)
  moreover have "Day lt < DayFromYear (y + 1)"
    unfolding y_def using YearFromTime_bounds [of lt] by simp
  moreover have "day' = DayFromYear yr + monthStart (InLeapYear yr) 11 + 30"
    unfolding day'_def MakeDay_def Let_def by simp
  moreover have "334 \<le> monthStart (InLeapYear yr) 11" by (rule monthStart_december)
  ultimately have d: "Day lt + 2 \<le> day'" by linarith
  have "(Day lt + 2) * msPerDay \<le> day' * msPerDay"
    using d by (simp add: msPerDay_def)
  then have "Day lt * msPerDay + 2 * msPerDay \<le> day' * msPerDay"
    by (simp add: algebra_simps)
  moreover have "lt = Day lt * msPerDay + TimeWithinDay lt" by (rule time_split)
  moreover have "TimeWithinDay lt < msPerDay" using TimeWithinDay_range [of lt] by simp
  ultimately have "lt + msPerDay \<le> day' * msPerDay" by linarith
  then show ?thesis
    unfolding newDateYMD_def getFullYear_def Let_def MakeDate_def UTC_def
      lt_def [symmetric] y_def [symmetric] yr_def [symmetric] day'_def [symmetric]
    by (simp add: lt_def LocalTime_def)
qed


text \<open>
  Claim C6, as the code has it. At extraction time a candidate that passes the schema
  and the link check is excluded exactly when its deadline does not parse, is strictly
  earlier than the current time, or is later than the current time moved three calendar
  years on (same local month, day and time of day). At store time a candidate that
  passes the store's four field checks and whose deadline parses is excluded exactly
  when the deadline is strictly earlier than the current time or later than local
  midnight of 31 December of the third calendar year after the current one. At both
  stages a deadline exactly one day after the current time is included.
\<close>

theorem deadline_window:
  "(safeParse (newURL w) item = Some s \<longrightarrow> isOfficialDirectLink (newURL w) (link s) \<longrightarrow>
      (validateEntry w item = None \<longleftrightarrow>
         (case newDate w (deadline s) of
            None \<Rightarrow> True
          | Some d \<Rightarrow> d < currentTime w \<or>
                      setFullYear (LocalTZA w) (currentTime w)
                        (getFullYear (LocalTZA w) (currentTime w) + 3) < d))
      \<and> (newDate w (deadline s) = Some (currentTime w + msPerDay) \<longrightarrow>
           validateEntry w item = Some s))
   \<and> (10 \<le> length (title c) \<and> 3 \<le> length (organization c) \<and> 50 \<le> length (description c)
        \<and> isValidApplicationLink (newURL w) (link c) \<longrightarrow>
      newDate w (deadline c) = Some d \<longrightarrow>
        (validateScholarshipData w c \<noteq> None \<longleftrightarrow>
           d < currentTime w \<or>
           newDateYMD (LocalTZA w) (getFullYear (LocalTZA w) (currentTime w) + 3) 11 31 < d)
        \<and> (d = currentTime w + msPerDay \<longrightarrow> validateScholarshipData w c = None))"
proof (intro conjI impI)
  assume p: "safeParse (newURL w) item = Some s"
    and l: "isOfficialDirectLink (newURL w) (link s)"
  show "validateEntry w item = None \<longleftrightarrow>
         (case newDate w (deadline s) of
            None \<Rightarrow> True
          | Some d \<Rightarrow> d < currentTime w \<or>
                      setFullYear (LocalTZA w) (currentTime w)
                        (getFullYear (LocalTZA w) (currentTime w) + 3) < d)"
    using p l by (simp add: validateEntry_def Let_def split: option.splits)
  assume "newDate w (deadline s) = Some (currentTime w + msPerDay)"
  then show "validateEntry w item = Some s"
    using p l setFullYear_plus3_later [of "currentTime w" "LocalTZA w"]
    by (simp add: validateEntry_def Let_def msPerDay_def)
next
  assume f: "10 \<le> length (title c) \<and> 3 \<le> length (organization c) \<and> 50 \<le> length (description c)
        \<and> isValidApplicationLink (newURL w) (link c)"
    and d: "newDate w (deadline c) = Some d"
  from f have ne: "title c \<noteq> []" "organization c \<noteq> []" "description c \<noteq> []" by auto
  show "validateScholarshipData w c \<noteq> None \<longleftrightarrow>
           d < currentTime w \<or>
           newDateYMD (LocalTZA w) (getFullYear (LocalTZA w) (currentTime w) + 3) 11 31 < d"
    using f ne d
    by (simp add: validateScholarshipData_def Let_def dateBefore_def dateAfter_def not_less)
  assume "d = currentTime w + msPerDay"
  then show "validateScholarshipData w c = None"
    using f ne d endOfYear3_later [of "currentTime w" "LocalTZA w"]
    by (simp add: validateScholarshipData_def Let_def dateBefore_def dateAfter_def not_less
          msPerDay_def)
qed

text \<open>
  An instance: on the eve of its deadline the good candidate is kept by the extraction
  and accepted by the store.
\<close>

theorem deadline_window_witness:
  "newDate eveOfDeadlinePlatform (deadline goodCandidate)
     = Some (currentTime eveOfDeadlinePlatform + msPerDay)
   \<and> validateEntry eveOfDeadlinePlatform (toJson goodCandidate) = Some goodCandidate
   \<and> validateScholarshipData eveOfDeadlinePlatform goodCandidate = None"
proof -
  have a: "safeParse (newURL eveOfDeadlinePlatform) (toJson goodCandidate) = Some goodCandidate"
    by code_simp
  have b: "isOfficialDirectLink (newURL eveOfDeadlinePlatform) (link goodCandidate)"
    by code_simp
  have c: "10 \<le> length (title goodCandidate) \<and> 3 \<le> length (organization goodCandidate)
           \<and> 50 \<le> length (description goodCandidate)
           \<and> isValidApplicationLink (newURL eveOfDeadlinePlatform) (link goodCandidate)"
    by code_simp
  have d: "newDate eveOfDeadlinePlatform (deadline goodCandidate)
             = Some (currentTime eveOfDeadlinePlatform + msPerDay)"
    by code_simp
  show ?thesis
    using a b c d
      deadline_window [of eveOfDeadlinePlatform "toJson goodCandidate" goodCandidate
        goodCandidate "currentTime eveOfDeadlinePlatform + msPerDay"]
    by simp
qed

text \<open>
  The claim as it is stated fails: at noon of 2 November 2026 a candidate with the
  deadline 1 December 2029 is beyond the extraction's limit (noon of 2 November 2029)
  and excluded there, but within the store's limit (31 December 2029) and accepted
  there. The two windows are not the same.
\<close>

theorem deadline_window_counterexample:
  "newDate examplePlatform (deadline farCandidate) = Some 1890777600000
   \<and> setFullYear (LocalTZA examplePlatform) (currentTime examplePlatform)
       (getFullYear (LocalTZA examplePlatform) (currentTime examplePlatform) + 3) = 1888315200000
   \<and> newDateYMD (LocalTZA examplePlatform)
       (getFullYear (LocalTZA examplePlatform) (currentTime examplePlatform) + 3) 11 31
       = 1893369600000
   \<and> safeParse (newURL examplePlatform) (toJson farCandidate) = Some farCandidate
   \<and> validateEntry examplePlatform (toJson farCandidate) = None
   \<and> validateScholarshipData examplePlatform farCandidate = None"
  by code_simp

end
